theory Spec2Isabelle
  imports Main "HOL-Library.Word"
begin

section \<open>Values shared by both adapters (package api)\<close>

text \<open>
  Go's \<^verbatim>\<open>int\<close> is a 64-bit machine integer on the platforms the looking glass runs on;
  instants and durations are counted in nanoseconds and kept as unbounded integers.
  An \<^verbatim>\<open>error\<close> value is opaque to the adapters: they only hand it on.
  A call of a Source method ends in one of three ways: it returns a response (with a nil
  error), it returns an error (with a nil response), or the goroutine panics.
\<close>

type_synonym go_int = "64 word"

type_synonym instant = int

type_synonym community = "nat \<times> nat \<times> nat"

datatype error = Error string

datatype 'a outcome = Return 'a | Fail error | Panic

record cache_status =
  CachedAt :: instant

record meta =
  CacheStatus :: cache_status
  Version :: string
  ResultFromCache :: bool
  TTL :: instant

text \<open>\<^verbatim>\<open>api.Response\<close> is embedded in every response; its \<^verbatim>\<open>Meta\<close> is a pointer, nil in
  the zero value.\<close>

record response =
  Meta :: "meta option"

record status =
  status_Version :: string
  status_Message :: string
  status_RouterID :: string
  status_Backend :: string

record status_response = response +
  Status :: status

record neighbor =
  ID :: string
  Address :: string
  ASN :: go_int
  State :: string
  Description :: string
  RoutesReceived :: go_int
  RoutesFiltered :: go_int
  RoutesExported :: go_int
  RoutesAccepted :: go_int
  Uptime :: int
  RouteServerID :: string

record neighbors_response = response +
  Neighbors :: "neighbor list"

record neighbor_status =
  ns_ID :: string
  ns_State :: string
  ns_Since :: int

record neighbors_status_response = response +
  StatusNeighbors :: "neighbor_status list"

record route =
  Network :: string
  Gateway :: string
  LargeCommunities :: "community list"

text \<open>A Go slice is nil (\<open>None\<close>) or a sequence (\<open>Some xs\<close>, possibly empty); the two
  differ for a caller and in the encoded response (null against an empty array).\<close>

type_synonym routes = "route list option"

record routes_response = response +
  Imported :: routes
  NotExported :: routes
  Filtered :: routes

definition len :: "'a list option \<Rightarrow> nat" where
  "len xs = (case xs of None \<Rightarrow> 0 | Some ys \<Rightarrow> length ys)"

section \<open>The caches (package caches)\<close>

text \<open>
  Modelled from the spec: the cache store of package \<^verbatim>\<open>caches\<close>, whose source is not
  among the files; only its calls (\<^verbatim>\<open>NewNeighborsCache\<close>, \<^verbatim>\<open>NewRoutesCache\<close>, \<^verbatim>\<open>Get\<close>,
  \<^verbatim>\<open>Set\<close>, \<^verbatim>\<open>Expire\<close>) are. An entry is \<open>{value, insertedAt, ttl}\<close>, a keyed entry has a key
  and \<open>lastAccessed\<close> as well. An entry is expired once \<open>insertedAt + ttl \<le> now\<close>. A
  disabled cache reports absent on every \<^verbatim>\<open>Get\<close> and ignores every \<^verbatim>\<open>Set\<close>. The singleton
  cache has one slot that \<^verbatim>\<open>Set\<close> overwrites; the keyed cache is bounded and evicts the least
  recently used entry when full. \<^verbatim>\<open>Expire\<close> removes exactly the expired entries and returns
  how many. \<^verbatim>\<open>Set\<close> receives nothing but the response, so the entry's time to live is read
  off the response's envelope (\<open>TTL - CachedAt\<close>, the configured duration).
\<close>

definition envelope_ttl :: "meta option \<Rightarrow> int" where
  "envelope_ttl m = (case m of None \<Rightarrow> 0 | Some x \<Rightarrow> TTL x - CachedAt (CacheStatus x))"

record nc_entry =
  nc_val :: neighbors_response
  nc_insertedAt :: instant
  nc_ttl :: int

record neighbors_cache =
  nc_disabled :: bool
  nc_slot :: "nc_entry option"

definition NewNeighborsCache :: "bool \<Rightarrow> neighbors_cache" where
  "NewNeighborsCache disabled = \<lparr>nc_disabled = disabled, nc_slot = None\<rparr>"

definition nc_expired :: "instant \<Rightarrow> nc_entry \<Rightarrow> bool" where
  "nc_expired now e = (nc_insertedAt e + nc_ttl e \<le> now)"

definition NeighborsCache_Get :: "neighbors_cache \<Rightarrow> instant \<Rightarrow> neighbors_response option" where
  "NeighborsCache_Get c now =
     (if nc_disabled c then None
      else case nc_slot c of
             None \<Rightarrow> None
           | Some e \<Rightarrow> if nc_expired now e then None else Some (nc_val e))"

definition NeighborsCache_Set :: "neighbors_cache \<Rightarrow> instant \<Rightarrow> neighbors_response \<Rightarrow> neighbors_cache" where
  "NeighborsCache_Set c now v =
     (if nc_disabled c then c
      else c\<lparr>nc_slot := Some \<lparr>nc_val = v, nc_insertedAt = now, nc_ttl = envelope_ttl (Meta v)\<rparr>\<rparr>)"

definition NeighborsCache_Expire :: "neighbors_cache \<Rightarrow> instant \<Rightarrow> nat \<times> neighbors_cache" where
  "NeighborsCache_Expire c now =
     (case nc_slot c of
        None \<Rightarrow> (0, c)
      | Some e \<Rightarrow> if nc_expired now e then (1, c\<lparr>nc_slot := None\<rparr>) else (0, c))"

record rc_entry =
  rc_key :: string
  rc_val :: routes_response
  rc_insertedAt :: instant
  rc_ttl :: int
  rc_lastAccessed :: instant

record routes_cache =
  rc_disabled :: bool
  rc_maxSize :: int
  rc_entries :: "rc_entry list"

definition NewRoutesCache :: "bool \<Rightarrow> int \<Rightarrow> routes_cache" where
  "NewRoutesCache disabled n = \<lparr>rc_disabled = disabled, rc_maxSize = n, rc_entries = []\<rparr>"

definition rc_expired :: "instant \<Rightarrow> rc_entry \<Rightarrow> bool" where
  "rc_expired now e = (rc_insertedAt e + rc_ttl e \<le> now)"

fun rc_touch :: "instant \<Rightarrow> string \<Rightarrow> rc_entry list \<Rightarrow> rc_entry list" where
  "rc_touch now k [] = []"
| "rc_touch now k (e # es) =
     (if rc_key e = k then e\<lparr>rc_lastAccessed := now\<rparr> # es else e # rc_touch now k es)"

text \<open>The entry accessed longest ago, the first of them when several tie.\<close>

fun rc_lru :: "rc_entry \<Rightarrow> rc_entry list \<Rightarrow> rc_entry" where
  "rc_lru e [] = e"
| "rc_lru e (x # xs) = (if rc_lastAccessed x < rc_lastAccessed e then rc_lru x xs else rc_lru e xs)"

definition rc_evict :: "rc_entry list \<Rightarrow> rc_entry list" where
  "rc_evict es = (case es of [] \<Rightarrow> [] | x # xs \<Rightarrow> remove1 (rc_lru x xs) es)"

definition RoutesCache_Get ::
  "routes_cache \<Rightarrow> instant \<Rightarrow> string \<Rightarrow> routes_response option \<times> routes_cache" where
  "RoutesCache_Get c now k =
     (if rc_disabled c then (None, c)
      else case find (\<lambda>e. rc_key e = k) (rc_entries c) of
             None \<Rightarrow> (None, c)
           | Some e \<Rightarrow>
               if rc_expired now e then (None, c)
               else (Some (rc_val e), c\<lparr>rc_entries := rc_touch now k (rc_entries c)\<rparr>))"

definition RoutesCache_Set ::
  "routes_cache \<Rightarrow> instant \<Rightarrow> string \<Rightarrow> routes_response \<Rightarrow> routes_cache" where
  "RoutesCache_Set c now k v =
     (if rc_disabled c then c
      else
        let others = filter (\<lambda>e. rc_key e \<noteq> k) (rc_entries c);
            kept = (if rc_maxSize c \<le> int (length others) then rc_evict others else others)
        in c\<lparr>rc_entries := kept @
              [\<lparr>rc_key = k, rc_val = v, rc_insertedAt = now,
                rc_ttl = envelope_ttl (Meta v), rc_lastAccessed = now\<rparr>]\<rparr>)"

definition RoutesCache_Expire :: "routes_cache \<Rightarrow> instant \<Rightarrow> nat \<times> routes_cache" where
  "RoutesCache_Expire c now =
     (length (filter (rc_expired now) (rc_entries c)),
      c\<lparr>rc_entries := filter (\<lambda>e. \<not> rc_expired now e) (rc_entries c)\<rparr>)"

section \<open>The polling adapter (package openbgpd)\<close>

text \<open>
  The configuration type and the decoders are not among the files. Of the configuration
  the adapter reads the route server's ID, the base URL, the cache's time to live, the
  size of the routes caches and the reject communities.
\<close>

record bgplgd_config =
  cfg_ID :: string
  cfg_API :: string
  CacheTTL :: int
  RoutesCacheSize :: int
  RejectCommunities :: "community list"

text \<open>
  What the adapter calls and does not define is a parameter of the model: building a
  request (\<^verbatim>\<open>http.NewRequestWithContext\<close>, which fails on a URL it cannot parse), the HTTP
  round trip (\<^verbatim>\<open>http.DefaultClient.Do\<close>: its answer may depend on the URL and on how many
  requests went out before), \<^verbatim>\<open>decoders.ReadJSONResponse\<close>, the three decoders and the
  two community filters. The filters return a Go slice, which may be nil.
\<close>

record backend =
  NewRequest :: "string \<Rightarrow> error option"
  Do :: "nat \<Rightarrow> string \<Rightarrow> error + string"
  ReadJSONResponse :: "string \<Rightarrow> error + string"
  decodeNeighbors :: "string \<Rightarrow> error + neighbor list"
  decodeNeighborsStatus :: "string \<Rightarrow> error + neighbor_status list"
  decodeRoutes :: "string \<Rightarrow> error + route list"
  filterReceivedRoutes :: "community list \<Rightarrow> route list \<Rightarrow> routes"
  filterRejectedRoutes :: "community list \<Rightarrow> route list \<Rightarrow> routes"

text \<open>The struct \<^verbatim>\<open>BgplgdSource\<close>, and with it the URLs handed to the HTTP client so far
  (\<open>sent\<close>), the adapter's only effect outside its own fields.\<close>

record bgplgd_source =
  cfg :: bgplgd_config
  neighborsCache :: neighbors_cache
  neighborsSummaryCache :: neighbors_cache
  routesCache :: routes_cache
  routesReceivedCache :: routes_cache
  routesFilteredCache :: routes_cache
  sent :: "string list"

definition BgplgdSourceVersion :: string where
  "BgplgdSourceVersion = ''1.0''"

definition NewBgplgdSource :: "bgplgd_config \<Rightarrow> bgplgd_source" where
  "NewBgplgdSource c =
     (let cacheDisabled = (CacheTTL c = 0) in
      \<lparr>cfg = c,
       neighborsCache = NewNeighborsCache cacheDisabled,
       neighborsSummaryCache = NewNeighborsCache cacheDisabled,
       routesCache = NewRoutesCache cacheDisabled (RoutesCacheSize c),
       routesReceivedCache = NewRoutesCache cacheDisabled (RoutesCacheSize c),
       routesFilteredCache = NewRoutesCache cacheDisabled (RoutesCacheSize c),
       sent = []\<rparr>)"

text \<open>\<^verbatim>\<open>ExpireCaches\<close> sweeps \<^verbatim>\<open>routesReceivedCache\<close> and returns that count.\<close>

definition bgplgd_ExpireCaches :: "instant \<Rightarrow> bgplgd_source \<Rightarrow> nat \<times> bgplgd_source" where
  "bgplgd_ExpireCaches now s =
     (case RoutesCache_Expire (routesReceivedCache s) now of
        (totalExpired, c) \<Rightarrow> (totalExpired, s\<lparr>routesReceivedCache := c\<rparr>))"

text \<open>Modelled from the spec: \<^verbatim>\<open>Config.APIURL\<close>, not among the files; the requests go to
  \<open>{base}/neighbors\<close>, \<open>{base}/summary\<close>, \<open>{base}/rib\<close> and \<open>{base}/rib?neighbor={id}\<close>.\<close>

definition APIURL :: "bgplgd_config \<Rightarrow> string \<Rightarrow> string" where
  "APIURL c path = cfg_API c @ path"

definition new_get_request :: "backend \<Rightarrow> string \<Rightarrow> error + string" where
  "new_get_request be url = (case NewRequest be url of Some e \<Rightarrow> Inl e | None \<Rightarrow> Inr url)"

definition ShowNeighborsRequest :: "backend \<Rightarrow> bgplgd_source \<Rightarrow> error + string" where
  "ShowNeighborsRequest be s = new_get_request be (APIURL (cfg s) ''/neighbors'')"

definition ShowNeighborsSummaryRequest :: "backend \<Rightarrow> bgplgd_source \<Rightarrow> error + string" where
  "ShowNeighborsSummaryRequest be s = new_get_request be (APIURL (cfg s) ''/summary'')"

definition ShowNeighborRIBRequest :: "backend \<Rightarrow> bgplgd_source \<Rightarrow> string \<Rightarrow> error + string" where
  "ShowNeighborRIBRequest be s neighborID =
     new_get_request be (APIURL (cfg s) (''/rib?neighbor='' @ neighborID))"

definition ShowRIBRequest :: "backend \<Rightarrow> bgplgd_source \<Rightarrow> error + string" where
  "ShowRIBRequest be s = new_get_request be (APIURL (cfg s) ''/rib'')"

text \<open>
  The three steps every request of the adapter goes through, each with its own
  \<^verbatim>\<open>return nil, err\<close>: the request was built, the client sends it, the body is read as
  JSON. Only the client's \<^verbatim>\<open>Do\<close> reaches the backend.
\<close>

definition fetch_json ::
  "backend \<Rightarrow> error + string \<Rightarrow> bgplgd_source \<Rightarrow> (error + string) \<times> bgplgd_source" where
  "fetch_json be req s =
     (case req of
        Inl e \<Rightarrow> (Inl e, s)
      | Inr url \<Rightarrow>
          (case Do be (length (sent s)) url of
             Inl e \<Rightarrow> (Inl e, s\<lparr>sent := sent s @ [url]\<rparr>)
           | Inr res \<Rightarrow> (ReadJSONResponse be res, s\<lparr>sent := sent s @ [url]\<rparr>)))"

text \<open>\<^verbatim>\<open>makeResponseMeta\<close>; both readings of the clock are the instant of the call.\<close>

definition makeResponseMeta :: "bgplgd_source \<Rightarrow> instant \<Rightarrow> meta" where
  "makeResponseMeta s now =
     \<lparr>CacheStatus = \<lparr>CachedAt = now\<rparr>,
      Version = BgplgdSourceVersion,
      ResultFromCache = False,
      TTL = now + CacheTTL (cfg s)\<rparr>"

definition bgplgd_Status :: "instant \<Rightarrow> bgplgd_source \<Rightarrow> status_response outcome \<times> bgplgd_source" where
  "bgplgd_Status now s =
     (Return \<lparr>Meta = Some (makeResponseMeta s now),
              Status = \<lparr>status_Version = ''openbgpd'',
                        status_Message = ''openbgpd up and running'',
                        status_RouterID = [],
                        status_Backend = []\<rparr>\<rparr>, s)"

text \<open>
  A cache hit: \<^verbatim>\<open>response.Meta.ResultFromCache = true\<close> writes through the pointer the
  cache handed out, and panics should the envelope pointer be nil. The cache keeps the
  pointer \<^verbatim>\<open>Set\<close> was given and \<^verbatim>\<open>Get\<close> hands that pointer out, so the response written to is
  the cache's own entry, which is also the object the storing call returned to its caller:
  after a hit the entry reads \<^verbatim>\<open>ResultFromCache = true\<close>.
\<close>

definition nc_written :: "neighbors_response \<Rightarrow> neighbors_cache \<Rightarrow> neighbors_cache" where
  "nc_written r c = c\<lparr>nc_slot := map_option (\<lambda>e. e\<lparr>nc_val := r\<rparr>) (nc_slot c)\<rparr>"

fun rc_replace :: "string \<Rightarrow> routes_response \<Rightarrow> rc_entry list \<Rightarrow> rc_entry list" where
  "rc_replace k r [] = []"
| "rc_replace k r (e # es) =
     (if rc_key e = k then e\<lparr>rc_val := r\<rparr> # es else e # rc_replace k r es)"

definition rc_written :: "string \<Rightarrow> routes_response \<Rightarrow> routes_cache \<Rightarrow> routes_cache" where
  "rc_written k r c = c\<lparr>rc_entries := rc_replace k r (rc_entries c)\<rparr>"

definition neighbors_hit ::
  "neighbors_response \<Rightarrow> neighbors_cache \<Rightarrow> neighbors_response outcome \<times> neighbors_cache" where
  "neighbors_hit r c =
     (case Meta r of
        None \<Rightarrow> (Panic, c)
      | Some m \<Rightarrow>
          (Return (r\<lparr>Meta := Some (m\<lparr>ResultFromCache := True\<rparr>)\<rparr>),
           nc_written (r\<lparr>Meta := Some (m\<lparr>ResultFromCache := True\<rparr>)\<rparr>) c))"

definition routes_hit ::
  "string \<Rightarrow> routes_response \<Rightarrow> routes_cache \<Rightarrow> routes_response outcome \<times> routes_cache" where
  "routes_hit k r c =
     (case Meta r of
        None \<Rightarrow> (Panic, c)
      | Some m \<Rightarrow>
          (Return (r\<lparr>Meta := Some (m\<lparr>ResultFromCache := True\<rparr>)\<rparr>),
           rc_written k (r\<lparr>Meta := Some (m\<lparr>ResultFromCache := True\<rparr>)\<rparr>) c))"

definition bgplgd_RoutesFiltered ::
  "backend \<Rightarrow> instant \<Rightarrow> string \<Rightarrow> bgplgd_source \<Rightarrow> routes_response outcome \<times> bgplgd_source" where
  "bgplgd_RoutesFiltered be now neighborID s =
     (case RoutesCache_Get (routesFilteredCache s) now neighborID of
        (Some cached, c) \<Rightarrow>
          (case routes_hit neighborID cached c of (out, c') \<Rightarrow> (out, s\<lparr>routesFilteredCache := c'\<rparr>))
      | (None, c) \<Rightarrow>
          (case fetch_json be (ShowNeighborRIBRequest be s neighborID) (s\<lparr>routesFilteredCache := c\<rparr>) of
             (Inl e, s1) \<Rightarrow> (Fail e, s1)
           | (Inr body, s1) \<Rightarrow>
               (case decodeRoutes be body of
                  Inl e \<Rightarrow> (Fail e, s1)
                | Inr rts \<Rightarrow>
                    (let rejected = filterRejectedRoutes be (RejectCommunities (cfg s1)) rts;
                         fresh = \<lparr>Meta = Some (makeResponseMeta s1 now),
                                  Imported = Some [],
                                  NotExported = Some [],
                                  Filtered = rejected\<rparr>
                     in (Return fresh,
                         s1\<lparr>routesFilteredCache :=
                              RoutesCache_Set (routesFilteredCache s1) now neighborID fresh\<rparr>)))))"

definition bgplgd_RoutesReceived ::
  "backend \<Rightarrow> instant \<Rightarrow> string \<Rightarrow> bgplgd_source \<Rightarrow> routes_response outcome \<times> bgplgd_source" where
  "bgplgd_RoutesReceived be now neighborID s =
     (case RoutesCache_Get (routesReceivedCache s) now neighborID of
        (Some cached, c) \<Rightarrow>
          (case routes_hit neighborID cached c of (out, c') \<Rightarrow> (out, s\<lparr>routesReceivedCache := c'\<rparr>))
      | (None, c) \<Rightarrow>
          (case fetch_json be (ShowNeighborRIBRequest be s neighborID) (s\<lparr>routesReceivedCache := c\<rparr>) of
             (Inl e, s1) \<Rightarrow> (Fail e, s1)
           | (Inr body, s1) \<Rightarrow>
               (case decodeRoutes be body of
                  Inl e \<Rightarrow> (Fail e, s1)
                | Inr rts \<Rightarrow>
                    (let received = filterReceivedRoutes be (RejectCommunities (cfg s1)) rts;
                         fresh = \<lparr>Meta = Some (makeResponseMeta s1 now),
                                  Imported = received,
                                  NotExported = Some [],
                                  Filtered = Some []\<rparr>
                     in (Return fresh,
                         s1\<lparr>routesReceivedCache :=
                              RoutesCache_Set (routesReceivedCache s1) now neighborID fresh\<rparr>)))))"

definition bgplgd_Routes ::
  "backend \<Rightarrow> instant \<Rightarrow> string \<Rightarrow> bgplgd_source \<Rightarrow> routes_response outcome \<times> bgplgd_source" where
  "bgplgd_Routes be now neighborID s =
     (case RoutesCache_Get (routesCache s) now neighborID of
        (Some cached, c) \<Rightarrow>
          (case routes_hit neighborID cached c of (out, c') \<Rightarrow> (out, s\<lparr>routesCache := c'\<rparr>))
      | (None, c) \<Rightarrow>
          (case fetch_json be (ShowNeighborRIBRequest be s neighborID) (s\<lparr>routesCache := c\<rparr>) of
             (Inl e, s1) \<Rightarrow> (Fail e, s1)
           | (Inr body, s1) \<Rightarrow>
               (case decodeRoutes be body of
                  Inl e \<Rightarrow> (Fail e, s1)
                | Inr rts \<Rightarrow>
                    (let received = filterReceivedRoutes be (RejectCommunities (cfg s1)) rts;
                         rejected = filterRejectedRoutes be (RejectCommunities (cfg s1)) rts;
                         fresh = \<lparr>Meta = Some (makeResponseMeta s1 now),
                                  Imported = received,
                                  NotExported = Some [],
                                  Filtered = rejected\<rparr>
                     in (Return fresh,
                         s1\<lparr>routesCache := RoutesCache_Set (routesCache s1) now neighborID fresh\<rparr>)))))"

definition bgplgd_RoutesNotExported ::
  "instant \<Rightarrow> string \<Rightarrow> bgplgd_source \<Rightarrow> routes_response outcome \<times> bgplgd_source" where
  "bgplgd_RoutesNotExported now neighborID s =
     (Return \<lparr>Meta = Some (makeResponseMeta s now),
              Imported = Some [],
              NotExported = Some [],
              Filtered = Some []\<rparr>, s)"

definition bgplgd_AllRoutes ::
  "backend \<Rightarrow> instant \<Rightarrow> bgplgd_source \<Rightarrow> routes_response outcome \<times> bgplgd_source" where
  "bgplgd_AllRoutes be now s =
     (case fetch_json be (ShowRIBRequest be s) s of
        (Inl e, s1) \<Rightarrow> (Fail e, s1)
      | (Inr body, s1) \<Rightarrow>
          (case decodeRoutes be body of
             Inl e \<Rightarrow> (Fail e, s1)
           | Inr rts \<Rightarrow>
               (let received = filterReceivedRoutes be (RejectCommunities (cfg s1)) rts;
                    rejected = filterRejectedRoutes be (RejectCommunities (cfg s1)) rts
                in (Return \<lparr>Meta = Some (makeResponseMeta s1 now),
                            Imported = received,
                            NotExported = Some [],
                            Filtered = rejected\<rparr>, s1))))"

text \<open>
  The loop of \<^verbatim>\<open>Neighbors\<close> over the decoded neighbors: each is stamped with the route
  server's ID and gets the number of its filtered routes from \<^verbatim>\<open>RoutesFiltered\<close>; the first
  error leaves the loop and the call.
\<close>

fun enrich ::
  "backend \<Rightarrow> instant \<Rightarrow> neighbor list \<Rightarrow> bgplgd_source \<Rightarrow> neighbor list outcome \<times> bgplgd_source" where
  "enrich be now [] s = (Return [], s)"
| "enrich be now (n # ns) s =
     (case bgplgd_RoutesFiltered be now (ID n) s of
        (Fail e, s1) \<Rightarrow> (Fail e, s1)
      | (Panic, s1) \<Rightarrow> (Panic, s1)
      | (Return rejectedRes, s1) \<Rightarrow>
          (case enrich be now ns s1 of
             (Return ns', s2) \<Rightarrow>
               (Return (n\<lparr>RouteServerID := cfg_ID (cfg s),
                          RoutesFiltered := of_nat (len (Filtered rejectedRes))\<rparr> # ns'), s2)
           | (Fail e, s2) \<Rightarrow> (Fail e, s2)
           | (Panic, s2) \<Rightarrow> (Panic, s2)))"

definition bgplgd_Neighbors ::
  "backend \<Rightarrow> instant \<Rightarrow> bgplgd_source \<Rightarrow> neighbors_response outcome \<times> bgplgd_source" where
  "bgplgd_Neighbors be now s =
     (case NeighborsCache_Get (neighborsCache s) now of
        Some cached \<Rightarrow>
          (case neighbors_hit cached (neighborsCache s) of
             (out, c') \<Rightarrow> (out, s\<lparr>neighborsCache := c'\<rparr>))
      | None \<Rightarrow>
          (case fetch_json be (ShowNeighborsRequest be s) s of
             (Inl e, s1) \<Rightarrow> (Fail e, s1)
           | (Inr body, s1) \<Rightarrow>
               (case decodeNeighbors be body of
                  Inl e \<Rightarrow> (Fail e, s1)
                | Inr nb \<Rightarrow>
                    (case enrich be now nb s1 of
                       (Fail e, s2) \<Rightarrow> (Fail e, s2)
                     | (Panic, s2) \<Rightarrow> (Panic, s2)
                     | (Return nb', s2) \<Rightarrow>
                         (let fresh = \<lparr>Meta = Some (makeResponseMeta s2 now), Neighbors = nb'\<rparr>
                          in (Return fresh,
                              s2\<lparr>neighborsCache :=
                                   NeighborsCache_Set (neighborsCache s2) now fresh\<rparr>))))))"

definition bgplgd_NeighborsSummary ::
  "backend \<Rightarrow> instant \<Rightarrow> bgplgd_source \<Rightarrow> neighbors_response outcome \<times> bgplgd_source" where
  "bgplgd_NeighborsSummary be now s =
     (case NeighborsCache_Get (neighborsSummaryCache s) now of
        Some cached \<Rightarrow>
          (case neighbors_hit cached (neighborsSummaryCache s) of
             (out, c') \<Rightarrow> (out, s\<lparr>neighborsSummaryCache := c'\<rparr>))
      | None \<Rightarrow>
          (case fetch_json be (ShowNeighborsRequest be s) s of
             (Inl e, s1) \<Rightarrow> (Fail e, s1)
           | (Inr body, s1) \<Rightarrow>
               (case decodeNeighbors be body of
                  Inl e \<Rightarrow> (Fail e, s1)
                | Inr nb \<Rightarrow>
                    (let nb' = map (\<lambda>n. n\<lparr>RouteServerID := cfg_ID (cfg s1)\<rparr>) nb;
                         fresh = \<lparr>Meta = Some (makeResponseMeta s1 now), Neighbors = nb'\<rparr>
                     in (Return fresh,
                         s1\<lparr>neighborsSummaryCache :=
                              NeighborsCache_Set (neighborsSummaryCache s1) now fresh\<rparr>)))))"

definition bgplgd_NeighborsStatus ::
  "backend \<Rightarrow> instant \<Rightarrow> bgplgd_source \<Rightarrow> neighbors_status_response outcome \<times> bgplgd_source" where
  "bgplgd_NeighborsStatus be now s =
     (case fetch_json be (ShowNeighborsSummaryRequest be s) s of
        (Inl e, s1) \<Rightarrow> (Fail e, s1)
      | (Inr body, s1) \<Rightarrow>
          (case decodeNeighborsStatus be body of
             Inl e \<Rightarrow> (Fail e, s1)
           | Inr nb \<Rightarrow>
               (Return \<lparr>Meta = Some (makeResponseMeta s1 now), StatusNeighbors = nb\<rparr>, s1)))"

section \<open>The streaming adapter (package gobgp)\<close>

text \<open>
  The records of the gRPC API, with the fields the adapter reads; a peer as the daemon
  sends it has its \<^verbatim>\<open>Conf\<close>, \<^verbatim>\<open>State\<close> and \<^verbatim>\<open>Timers.State\<close> set, and the uptime is a pointer that
  may be nil. The counters of an address family are \<^verbatim>\<open>uint64\<close>, the AS number \<^verbatim>\<open>uint32\<close>.
\<close>

datatype session_state = UNKNOWN | IDLE | CONNECT | ACTIVE | OPENSENT | OPENCONFIRM | ESTABLISHED

datatype table_type = GLOBAL | LOCAL | ADJ_IN | ADJ_OUT | VRF

record timestamp =
  Seconds :: int
  Nanos :: int

record afi_safi =
  State_Received :: "64 word"
  State_Accepted :: "64 word"
  State_Advertised :: "64 word"

record peer =
  Conf_Description :: string
  State_NeighborAddress :: string
  State_PeerAs :: "32 word"
  State_SessionState :: session_state
  AfiSafis :: "afi_safi list"
  Timers_State_Uptime :: "timestamp option"

record gobgp_config =
  gobgp_ID :: string
  ProcessingTimeout :: int

text \<open>The struct \<^verbatim>\<open>GoBGP\<close> without its client.\<close>

record gobgp =
  config :: gobgp_config
  g_neighborsCache :: neighbors_cache
  routesRequiredCache :: routes_cache
  g_routesReceivedCache :: routes_cache
  g_routesFilteredCache :: routes_cache
  routesNotExportedCache :: routes_cache

text \<open>
  What the adapter calls and does not define is a parameter of the model. The gRPC
  client: \<^verbatim>\<open>ListPeer\<close> fails, or opens a stream whose \<^verbatim>\<open>Recv\<close> yields a record (\<open>Inr\<close>) or an
  error with a nil record (\<open>Inl\<close>), and \<^verbatim>\<open>io.EOF\<close> once the list is used up (a call that
  runs into the processing timeout receives an error); \<^verbatim>\<open>GetBgp\<close> fails or yields the
  router ID. The package's functions \<^verbatim>\<open>PeerHash\<close> and \<^verbatim>\<open>NewRoutesResponse\<close> and the methods
  \<^verbatim>\<open>lookupNeighbor\<close>, \<^verbatim>\<open>GetNeighbors\<close> and \<^verbatim>\<open>GetRoutes\<close> of \<^verbatim>\<open>*GoBGP\<close> are in files that
  are not present. The three methods have the adapter as their receiver: they may read and
  change its fields, the caches among them, so they take the struct and return it.
  \<^verbatim>\<open>GetRoutes\<close> writes into the response it is given a pointer to and returns an error or
  nil.
\<close>

record gobgp_env =
  ListPeer :: "bool \<Rightarrow> error + (error + peer) list"
  GetBgp :: "error + string"
  PeerHash :: "peer \<Rightarrow> string"
  NewRoutesResponse :: routes_response
  lookupNeighbor :: "string \<Rightarrow> gobgp \<Rightarrow> (error + peer) \<times> gobgp"
  GetNeighbors :: "gobgp \<Rightarrow> (error + peer list) \<times> gobgp"
  GetRoutes ::
    "peer \<Rightarrow> table_type \<Rightarrow> routes_response \<Rightarrow> gobgp \<Rightarrow> (error option \<times> routes_response) \<times> gobgp"

text \<open>\<^verbatim>\<open>NewGoBGP\<close>, once the connection is dialled (\<^verbatim>\<open>log.Fatalf\<close> ends the process
  otherwise).\<close>

definition NewGoBGP :: "gobgp_config \<Rightarrow> gobgp" where
  "NewGoBGP c =
     (let neighborsCacheDisable = False;
          routesCacheDisabled = False;
          routesCacheMaxSize = 128
      in \<lparr>config = c,
          g_neighborsCache = NewNeighborsCache neighborsCacheDisable,
          routesRequiredCache = NewRoutesCache routesCacheDisabled routesCacheMaxSize,
          g_routesReceivedCache = NewRoutesCache routesCacheDisabled routesCacheMaxSize,
          g_routesFilteredCache = NewRoutesCache routesCacheDisabled routesCacheMaxSize,
          routesNotExportedCache = NewRoutesCache routesCacheDisabled routesCacheMaxSize\<rparr>)"

definition gobgp_ExpireCaches :: "instant \<Rightarrow> gobgp \<Rightarrow> nat \<times> gobgp" where
  "gobgp_ExpireCaches now g =
     (case RoutesCache_Expire (routesRequiredCache g) now of
        (count1, c1) \<Rightarrow>
          (case RoutesCache_Expire (routesNotExportedCache g) now of
             (count2, c2) \<Rightarrow>
               (count1 + count2, g\<lparr>routesRequiredCache := c1, routesNotExportedCache := c2\<rparr>)))"

text \<open>\<^verbatim>\<open>time.Since(time.Unix(seconds, nanos))\<close>, in nanoseconds.\<close>

definition since :: "instant \<Rightarrow> timestamp \<Rightarrow> int" where
  "since now t = now - (Seconds t * 1000000000 + Nanos t)"

definition session_text :: "session_state \<Rightarrow> string" where
  "session_text st = (case st of ESTABLISHED \<Rightarrow> ''up'' | _ \<Rightarrow> ''down'')"

text \<open>
  The receive loop of \<^verbatim>\<open>NeighborsStatus\<close>. Only \<^verbatim>\<open>io.EOF\<close> is tested for: after any other
  error the record is nil and \<^verbatim>\<open>_resp.Peer\<close> dereferences it. The status \<open>ns\<close> is filled in
  and then goes out of scope; the response is the one made before the loop.
\<close>

fun status_loop ::
  "gobgp_env \<Rightarrow> instant \<Rightarrow> (error + peer) list \<Rightarrow> neighbors_status_response
     \<Rightarrow> neighbors_status_response outcome" where
  "status_loop env now [] resp = Return resp"
| "status_loop env now (Inl err # rest) resp = Panic"
| "status_loop env now (Inr p # rest) resp =
     (let ns = \<lparr>ns_ID = PeerHash env p,
                ns_State = session_text (State_SessionState p),
                ns_Since = (case Timers_State_Uptime p of None \<Rightarrow> 0 | Some t \<Rightarrow> since now t)\<rparr>
      in status_loop env now rest resp)"

definition gobgp_NeighborsStatus ::
  "gobgp_env \<Rightarrow> instant \<Rightarrow> gobgp \<Rightarrow> neighbors_status_response outcome \<times> gobgp" where
  "gobgp_NeighborsStatus env now g =
     (case ListPeer env False of
        Inl err \<Rightarrow> (Fail err, g)
      | Inr stream \<Rightarrow> (status_loop env now stream \<lparr>Meta = None, StatusNeighbors = []\<rparr>, g))"


text \<open>The loop over a peer's address families; each statement reads the fields as the
  statements before it left them.\<close>

fun count_afi_safis :: "neighbor \<Rightarrow> afi_safi list \<Rightarrow> neighbor" where
  "count_afi_safis neigh [] = neigh"
| "count_afi_safis neigh (afiSafi # rest) =
     (let n1 = neigh\<lparr>RoutesReceived := RoutesReceived neigh + State_Received afiSafi\<rparr>;
          n2 = n1\<lparr>RoutesExported := RoutesExported n1 + State_Advertised afiSafi\<rparr>;
          n3 = n2\<lparr>RoutesAccepted := RoutesAccepted n2 + State_Accepted afiSafi\<rparr>;
          n4 = n3\<lparr>RoutesFiltered := RoutesFiltered n3 + (RoutesReceived n3 - RoutesAccepted n3)\<rparr>
      in count_afi_safis n4 rest)"

definition make_neighbor :: "gobgp_env \<Rightarrow> gobgp_config \<Rightarrow> instant \<Rightarrow> peer \<Rightarrow> neighbor" where
  "make_neighbor env c now p =
     (let neigh = \<lparr>ID = PeerHash env p,
                   Address = State_NeighborAddress p,
                   ASN = ucast (State_PeerAs p),
                   State = session_text (State_SessionState p),
                   Description = Conf_Description p,
                   RoutesReceived = 0,
                   RoutesFiltered = 0,
                   RoutesExported = 0,
                   RoutesAccepted = 0,
                   Uptime = 0,
                   RouteServerID = gobgp_ID c\<rparr>;
          counted = count_afi_safis neigh (AfiSafis p)
      in case Timers_State_Uptime p of
           None \<Rightarrow> counted
         | Some t \<Rightarrow> counted\<lparr>Uptime := since now t\<rparr>)"

text \<open>The receive loop of \<^verbatim>\<open>Neighbors\<close>: the neighbor is appended by pointer, so the
  response holds it as the rest of the iteration leaves it.\<close>

fun neighbors_loop ::
  "gobgp_env \<Rightarrow> gobgp_config \<Rightarrow> instant \<Rightarrow> (error + peer) list \<Rightarrow> neighbors_response
     \<Rightarrow> neighbors_response outcome" where
  "neighbors_loop env c now [] resp = Return resp"
| "neighbors_loop env c now (Inl err # rest) resp = Panic"
| "neighbors_loop env c now (Inr p # rest) resp =
     neighbors_loop env c now rest (resp\<lparr>Neighbors := Neighbors resp @ [make_neighbor env c now p]\<rparr>)"

definition gobgp_Neighbors ::
  "gobgp_env \<Rightarrow> instant \<Rightarrow> gobgp \<Rightarrow> neighbors_response outcome \<times> gobgp" where
  "gobgp_Neighbors env now g =
     (case ListPeer env True of
        Inl err \<Rightarrow> (Fail err, g)
      | Inr stream \<Rightarrow>
          (neighbors_loop env (config g) now stream \<lparr>Meta = None, Neighbors = []\<rparr>, g))"


text \<open>\<^verbatim>\<open>Routes\<close>, \<^verbatim>\<open>getRoutes\<close> and \<^verbatim>\<open>RoutesRequired\<close>: look the neighbor up, read its
  Adj-RIB-In into a new response.\<close>

definition gobgp_getRoutes :: "gobgp_env \<Rightarrow> string \<Rightarrow> gobgp \<Rightarrow> routes_response outcome \<times> gobgp" where
  "gobgp_getRoutes env neighborID g =
     (case lookupNeighbor env neighborID g of
        (Inl err, g1) \<Rightarrow> (Fail err, g1)
      | (Inr neigh, g1) \<Rightarrow>
          (case GetRoutes env neigh ADJ_IN (NewRoutesResponse env) g1 of
             ((Some err, rts), g2) \<Rightarrow> (Fail err, g2)
           | ((None, rts), g2) \<Rightarrow> (Return rts, g2)))"


definition gobgp_RoutesRequired ::
  "gobgp_env \<Rightarrow> string \<Rightarrow> gobgp \<Rightarrow> routes_response outcome \<times> gobgp" where
  "gobgp_RoutesRequired env neighborID g = gobgp_getRoutes env neighborID g"

definition gobgp_RoutesReceived ::
  "gobgp_env \<Rightarrow> string \<Rightarrow> gobgp \<Rightarrow> routes_response outcome \<times> gobgp" where
  "gobgp_RoutesReceived env neighborID g =
     (case lookupNeighbor env neighborID g of
        (Inl err, g1) \<Rightarrow> (Fail err, g1)
      | (Inr neigh, g1) \<Rightarrow>
          (case GetRoutes env neigh ADJ_IN (NewRoutesResponse env) g1 of
             ((Some err, rts), g2) \<Rightarrow> (Fail err, g2)
           | ((None, rts), g2) \<Rightarrow> (Return (rts\<lparr>Filtered := None\<rparr>), g2)))"

text \<open>\<^verbatim>\<open>RoutesFiltered\<close> prints the error of \<^verbatim>\<open>getRoutes\<close> and goes on to
  \<^verbatim>\<open>routes.Imported = nil\<close>, with \<open>routes\<close> the nil pointer that came with the error.\<close>

definition gobgp_RoutesFiltered ::
  "gobgp_env \<Rightarrow> string \<Rightarrow> gobgp \<Rightarrow> routes_response outcome \<times> gobgp" where
  "gobgp_RoutesFiltered env neighborID g =
     (case gobgp_getRoutes env neighborID g of
        (Fail err, g1) \<Rightarrow> (Panic, g1)
      | (Panic, g1) \<Rightarrow> (Panic, g1)
      | (Return rts, g1) \<Rightarrow> (Return (rts\<lparr>Imported := None\<rparr>), g1))"

definition gobgp_RoutesNotExported ::
  "gobgp_env \<Rightarrow> string \<Rightarrow> gobgp \<Rightarrow> routes_response outcome \<times> gobgp" where
  "gobgp_RoutesNotExported env neighborID g =
     (case lookupNeighbor env neighborID g of
        (Inl err, g1) \<Rightarrow> (Fail err, g1)
      | (Inr neigh, g1) \<Rightarrow>
          (case GetRoutes env neigh ADJ_OUT (NewRoutesResponse env) g1 of
             ((Some err, rts), g2) \<Rightarrow> (Fail err, g2)
           | ((None, rts), g2) \<Rightarrow> (Return (rts\<lparr>NotExported := Filtered rts\<rparr>), g2)))"

definition gobgp_LookupPrefix :: "string \<Rightarrow> gobgp \<Rightarrow> unit outcome \<times> gobgp" where
  "gobgp_LookupPrefix prefix g = (Fail (Error ''not implemented: LookupPrefix''), g)"

text \<open>The loop of \<^verbatim>\<open>AllRoutes\<close>: an error of \<^verbatim>\<open>GetRoutes\<close> is printed and the next peer is
  read into the same response.\<close>

fun all_routes_loop ::
  "gobgp_env \<Rightarrow> peer list \<Rightarrow> routes_response \<Rightarrow> gobgp \<Rightarrow> routes_response \<times> gobgp" where
  "all_routes_loop env [] rts g = (rts, g)"
| "all_routes_loop env (p # ps) rts g =
     (case GetRoutes env p ADJ_IN rts g of ((err, rts'), g') \<Rightarrow> all_routes_loop env ps rts' g')"

definition gobgp_AllRoutes :: "gobgp_env \<Rightarrow> gobgp \<Rightarrow> routes_response outcome \<times> gobgp" where
  "gobgp_AllRoutes env g =
     (case GetNeighbors env g of
        (Inl err, g1) \<Rightarrow> (Fail err, g1)
      | (Inr peers, g1) \<Rightarrow>
          (case all_routes_loop env peers (NewRoutesResponse env) g1 of
             (rts, g2) \<Rightarrow> (Return rts, g2)))"



section \<open>The states a polling adapter can be in\<close>

text \<open>A \<^verbatim>\<open>BgplgdSource\<close> is made by \<^verbatim>\<open>NewBgplgdSource\<close> and from then on changed only by
  the methods of the Source interface, called at any instant against any backend.\<close>

inductive reachable :: "bgplgd_config \<Rightarrow> bgplgd_source \<Rightarrow> bool" for c where
  new: "reachable c (NewBgplgdSource c)"
| expire: "reachable c s \<Longrightarrow> reachable c (snd (bgplgd_ExpireCaches now s))"
| status: "reachable c s \<Longrightarrow> reachable c (snd (bgplgd_Status now s))"
| neighbors: "reachable c s \<Longrightarrow> reachable c (snd (bgplgd_Neighbors be now s))"
| summary: "reachable c s \<Longrightarrow> reachable c (snd (bgplgd_NeighborsSummary be now s))"
| neighbors_status: "reachable c s \<Longrightarrow> reachable c (snd (bgplgd_NeighborsStatus be now s))"
| routes: "reachable c s \<Longrightarrow> reachable c (snd (bgplgd_Routes be now k s))"
| received: "reachable c s \<Longrightarrow> reachable c (snd (bgplgd_RoutesReceived be now k s))"
| filtered: "reachable c s \<Longrightarrow> reachable c (snd (bgplgd_RoutesFiltered be now k s))"
| not_exported: "reachable c s \<Longrightarrow> reachable c (snd (bgplgd_RoutesNotExported now k s))"
| all_routes: "reachable c s \<Longrightarrow> reachable c (snd (bgplgd_AllRoutes be now s))"

text \<open>What holds of every cached response: it has an envelope, and a response in the
  cache of received (filtered) routes has the two other sequences empty and not nil.\<close>

definition rc_all :: "(routes_response \<Rightarrow> bool) \<Rightarrow> routes_cache \<Rightarrow> bool" where
  "rc_all P c = list_all (\<lambda>e. P (rc_val e)) (rc_entries c)"

definition nc_all :: "(neighbors_response \<Rightarrow> bool) \<Rightarrow> neighbors_cache \<Rightarrow> bool" where
  "nc_all P c = (case nc_slot c of None \<Rightarrow> True | Some e \<Rightarrow> P (nc_val e))"

definition has_meta :: "'a response_scheme \<Rightarrow> bool" where
  "has_meta r = (Meta r \<noteq> None)"

definition received_only :: "routes_response \<Rightarrow> bool" where
  "received_only r = (has_meta r \<and> NotExported r = Some [] \<and> Filtered r = Some [])"

definition filtered_only :: "routes_response \<Rightarrow> bool" where
  "filtered_only r = (has_meta r \<and> Imported r = Some [] \<and> NotExported r = Some [])"

definition caches_ok :: "bgplgd_source \<Rightarrow> bool" where
  "caches_ok s =
     (nc_all has_meta (neighborsCache s) \<and>
      nc_all has_meta (neighborsSummaryCache s) \<and>
      rc_all has_meta (routesCache s) \<and>
      rc_all received_only (routesReceivedCache s) \<and>
      rc_all filtered_only (routesFilteredCache s))"

text \<open>An adapter made for the configuration \<open>c\<close> keeps it, and each of its caches is
  disabled exactly when the configured time to live is zero, as \<^verbatim>\<open>NewBgplgdSource\<close> sets
  them up.\<close>

definition configured :: "bgplgd_config \<Rightarrow> bgplgd_source \<Rightarrow> bool" where
  "configured c s =
     (cfg s = c \<and>
      nc_disabled (neighborsCache s) = (CacheTTL c = 0) \<and>
      nc_disabled (neighborsSummaryCache s) = (CacheTTL c = 0) \<and>
      rc_disabled (routesCache s) = (CacheTTL c = 0) \<and>
      rc_disabled (routesReceivedCache s) = (CacheTTL c = 0) \<and>
      rc_disabled (routesFilteredCache s) = (CacheTTL c = 0))"

definition sound :: "bgplgd_config \<Rightarrow> bgplgd_source \<Rightarrow> bool" where
  "sound c s = (configured c s \<and> caches_ok s)"

section \<open>Example backends\<close>

definition example_config :: bgplgd_config where
  "example_config =
     \<lparr>cfg_ID = ''rs1'', cfg_API = ''b'', CacheTTL = 300, RoutesCacheSize = 8,
      RejectCommunities = [(65000, 1, 1)]\<rparr>"

definition route_ok :: route where
  "route_ok = \<lparr>Network = ''10.0.0.0/24'', Gateway = ''192.0.2.1'', LargeCommunities = []\<rparr>"

definition route_bad :: route where
  "route_bad = \<lparr>Network = ''10.1.0.0/24'', Gateway = ''192.0.2.1'', LargeCommunities = [(65000, 1, 1)]\<rparr>"

definition example_neighbor :: "string \<Rightarrow> neighbor" where
  "example_neighbor i =
     \<lparr>ID = i, Address = ''192.0.2.1'', ASN = 64500, State = ''up'', Description = ''peer'',
      RoutesReceived = 2, RoutesFiltered = 0, RoutesExported = 0, RoutesAccepted = 1,
      Uptime = 0, RouteServerID = []\<rparr>"

text \<open>A route counts as rejected when one of its large communities is a reject community.\<close>

definition is_rejected :: "community list \<Rightarrow> route \<Rightarrow> bool" where
  "is_rejected rc r = list_ex (\<lambda>x. x \<in> set rc) (LargeCommunities r)"

text \<open>A backend that answers every request with the request's URL as its body; the
  decoders read two neighbors \<open>a\<close> and \<open>z\<close> off \<open>/neighbors\<close>, two routes off the RIB of \<open>a\<close>,
  and fail on the RIB of any other neighbor.\<close>

definition example_backend :: backend where
  "example_backend =
     \<lparr>NewRequest = (\<lambda>url. None),
      Do = (\<lambda>k url. Inr url),
      ReadJSONResponse = (\<lambda>res. Inr res),
      decodeNeighbors = (\<lambda>body. if body = ''b/neighbors''
                                 then Inr [example_neighbor ''a'', example_neighbor ''z'']
                                 else Inl (Error ''neighbors'')),
      decodeNeighborsStatus = (\<lambda>body. Inl (Error ''status'')),
      decodeRoutes = (\<lambda>body. if body = ''b/rib?neighbor=a'' then Inr [route_ok, route_bad]
                              else Inl (Error ''routes'')),
      filterReceivedRoutes = (\<lambda>rc rts. Some (filter (\<lambda>r. \<not> is_rejected rc r) rts)),
      filterRejectedRoutes = (\<lambda>rc rts. Some (filter (is_rejected rc) rts))\<rparr>"

definition example_gobgp_config :: gobgp_config where
  "example_gobgp_config = \<lparr>gobgp_ID = ''rs2'', ProcessingTimeout = 30\<rparr>"

definition example_peer :: "string \<Rightarrow> session_state \<Rightarrow> peer" where
  "example_peer a st =
     \<lparr>Conf_Description = ''peer'', State_NeighborAddress = a, State_PeerAs = 64500,
      State_SessionState = st,
      AfiSafis = [\<lparr>State_Received = 10, State_Accepted = 8, State_Advertised = 3\<rparr>,
                  \<lparr>State_Received = 5, State_Accepted = 5, State_Advertised = 2\<rparr>],
      Timers_State_Uptime = Some \<lparr>Seconds = 1, Nanos = 0\<rparr>\<rparr>"

text \<open>Go's \<^verbatim>\<open>append\<close>, which takes a nil slice for an empty one.\<close>

definition append_routes :: "routes \<Rightarrow> route list \<Rightarrow> routes" where
  "append_routes xs ys = Some ((case xs of None \<Rightarrow> [] | Some zs \<Rightarrow> zs) @ ys)"

text \<open>A daemon with the peers \<open>a\<close> (established) and \<open>d\<close> (idle). The neighbor \<open>a\<close> is found,
  any other ID is not. Reading the routes of \<open>a\<close> appends one accepted and one filtered
  path, reading those of \<open>d\<close> fails. None of the three methods touches the adapter.\<close>

definition example_env :: gobgp_env where
  "example_env =
     \<lparr>ListPeer = (\<lambda>adv. Inr [Inr (example_peer ''a'' ESTABLISHED), Inr (example_peer ''d'' IDLE)]),
      GetBgp = Inr ''192.0.2.254'',
      PeerHash = State_NeighborAddress,
      NewRoutesResponse = \<lparr>Meta = None, Imported = Some [], NotExported = Some [], Filtered = Some []\<rparr>,
      lookupNeighbor = (\<lambda>i g. (if i = ''a'' then Inr (example_peer ''a'' ESTABLISHED)
                                else Inl (Error ''could not lookup neighbor''), g)),
      GetNeighbors = (\<lambda>g. (Inr [example_peer ''d'' IDLE, example_peer ''a'' ESTABLISHED], g)),
      GetRoutes = (\<lambda>p t rts g.
         if State_NeighborAddress p = ''a''
         then ((None, rts\<lparr>Imported := append_routes (Imported rts) [route_ok],
                          Filtered := append_routes (Filtered rts) [route_bad]\<rparr>), g)
         else ((Some (Error ''stream''), rts), g))\<rparr>"

text \<open>The same daemon, whose peer stream breaks after the first record.\<close>

definition broken_stream_env :: gobgp_env where
  "broken_stream_env =
     example_env\<lparr>ListPeer := (\<lambda>adv. Inr [Inr (example_peer ''a'' ESTABLISHED), Inl (Error ''unavailable'')])\<rparr>"

section \<open>The cached calls of the polling adapter\<close>







section \<open>Facts about the example backends\<close>

lemma ListPeer_example:
  "ListPeer example_env adv = Inr [Inr (example_peer ''a'' ESTABLISHED), Inr (example_peer ''d'' IDLE)]"
  by (simp add: example_env_def)

lemma make_neighbor_example:
  "make_neighbor example_env c now (example_peer a st) =
     \<lparr>ID = a, Address = a, ASN = 64500, State = session_text st, Description = ''peer'',
      RoutesReceived = 15, RoutesFiltered = 4, RoutesExported = 5, RoutesAccepted = 13,
      Uptime = now - 1000000000, RouteServerID = gobgp_ID c\<rparr>"
  by (simp add: make_neighbor_def example_env_def example_peer_def since_def Let_def)

section \<open>The streaming adapter's loops\<close>

text \<open>The three counters that are added up per address family are the sums over the
  peer's address families (in 64-bit arithmetic).\<close>

lemma count_afi_safis_Received:
  "RoutesReceived (count_afi_safis n afs) = RoutesReceived n + sum_list (map State_Received afs)"
  by (induction afs arbitrary: n) (simp_all add: Let_def add.assoc)

lemma count_afi_safis_Exported:
  "RoutesExported (count_afi_safis n afs) = RoutesExported n + sum_list (map State_Advertised afs)"
  by (induction afs arbitrary: n) (simp_all add: Let_def add.assoc)

lemma count_afi_safis_Accepted:
  "RoutesAccepted (count_afi_safis n afs) = RoutesAccepted n + sum_list (map State_Accepted afs)"
  by (induction afs arbitrary: n) (simp_all add: Let_def add.assoc)


section \<open>What the caches keep\<close>

text \<open>A property of every cached response survives \<^verbatim>\<open>Get\<close>, \<^verbatim>\<open>Set\<close> of a response that has
  it, and \<^verbatim>\<open>Expire\<close>; a response a cache hands out has it.\<close>

lemma rc_touch_vals: "map rc_val (rc_touch now k es) = map rc_val es"
  by (induction es) simp_all

lemma rc_evict_subset: "set (rc_evict es) \<subseteq> set es"
  by (cases es) (auto simp: rc_evict_def dest: notin_set_remove1)

lemma rc_evict_in: "x \<in> set (rc_evict es) \<Longrightarrow> x \<in> set es"
  using rc_evict_subset by blast

lemma rc_all_Get: "rc_all P c \<Longrightarrow> rc_all P (snd (RoutesCache_Get c now k))"
proof -
  assume a: "rc_all P c"
  have "list_all P (map rc_val (rc_touch now k (rc_entries c)))"
    using a by (simp add: rc_touch_vals rc_all_def list_all_iff)
  then have "list_all (\<lambda>e. P (rc_val e)) (rc_touch now k (rc_entries c))"
    by (simp add: list_all_iff)
  with a show ?thesis
    by (simp add: RoutesCache_Get_def rc_all_def split: option.splits)
qed

lemma rc_all_hit: "rc_all P c \<Longrightarrow> fst (RoutesCache_Get c now k) = Some v \<Longrightarrow> P v"
  by (auto simp: RoutesCache_Get_def rc_all_def list_all_iff find_Some_iff
      split: option.splits if_splits)

lemma rc_all_Set: "rc_all P c \<Longrightarrow> P v \<Longrightarrow> rc_all P (RoutesCache_Set c now k v)"
  by (auto simp: RoutesCache_Set_def rc_all_def list_all_iff Let_def dest: rc_evict_in)

lemma rc_all_Expire: "rc_all P c \<Longrightarrow> rc_all P (snd (RoutesCache_Expire c now))"
  by (simp add: RoutesCache_Expire_def rc_all_def list_all_iff)

lemma rc_miss_same: "fst (RoutesCache_Get c now k) = None \<Longrightarrow> snd (RoutesCache_Get c now k) = c"
  by (simp add: RoutesCache_Get_def split: option.splits if_splits)

lemma nc_all_hit: "nc_all P c \<Longrightarrow> NeighborsCache_Get c now = Some v \<Longrightarrow> P v"
  by (auto simp: NeighborsCache_Get_def nc_all_def split: option.splits if_splits)

lemma nc_all_Set: "nc_all P c \<Longrightarrow> P v \<Longrightarrow> nc_all P (NeighborsCache_Set c now v)"
  by (simp add: NeighborsCache_Set_def nc_all_def)

text \<open>Writing the flag through the cached pointer keeps what held of the entries,
  when it holds of the response with the flag set.\<close>

lemma rc_replace_all:
  "list_all (\<lambda>e. P (rc_val e)) es \<Longrightarrow> P r \<Longrightarrow> list_all (\<lambda>e. P (rc_val e)) (rc_replace k r es)"
  by (induction es) simp_all

lemma rc_all_written: "rc_all P c \<Longrightarrow> P r \<Longrightarrow> rc_all P (rc_written k r c)"
  by (simp add: rc_all_def rc_written_def rc_replace_all)

lemma nc_all_written: "P r \<Longrightarrow> nc_all P (nc_written r c)"
  by (cases "nc_slot c") (simp_all add: nc_all_def nc_written_def)

lemma routes_hit_keeps:
  assumes "rc_all P c"
    and "\<And>m. Meta r = Some m \<Longrightarrow> P (r\<lparr>Meta := Some (m\<lparr>ResultFromCache := True\<rparr>)\<rparr>)"
  shows "rc_all P (snd (routes_hit k r c))"
  using assms by (cases "Meta r") (simp_all add: routes_hit_def rc_all_written)

lemma neighbors_hit_keeps:
  assumes "nc_all P c"
    and "\<And>m. Meta r = Some m \<Longrightarrow> P (r\<lparr>Meta := Some (m\<lparr>ResultFromCache := True\<rparr>)\<rparr>)"
  shows "nc_all P (snd (neighbors_hit r c))"
  using assms by (cases "Meta r") (simp_all add: neighbors_hit_def nc_all_written)

lemma rc_disabled_hit [simp]: "rc_disabled (snd (routes_hit k r c)) = rc_disabled c"
  by (cases "Meta r") (simp_all add: routes_hit_def rc_written_def)

lemma nc_disabled_hit [simp]: "nc_disabled (snd (neighbors_hit r c)) = nc_disabled c"
  by (cases "Meta r") (simp_all add: neighbors_hit_def nc_written_def)

section \<open>What a call of the polling adapter leaves alone\<close>

lemma fetch_json_frame: "fetch_json be req s = (x, s1) \<Longrightarrow> \<exists>u. s1 = s\<lparr>sent := sent s @ u\<rparr>"
  apply (cases req)
   apply (auto simp: fetch_json_def split: sum.splits)
  apply (rule exI[of _ "[]"], simp)
  done

lemma RoutesFiltered_frame:
  "cfg (snd (bgplgd_RoutesFiltered be now k s)) = cfg s \<and>
   neighborsCache (snd (bgplgd_RoutesFiltered be now k s)) = neighborsCache s \<and>
   neighborsSummaryCache (snd (bgplgd_RoutesFiltered be now k s)) = neighborsSummaryCache s \<and>
   routesCache (snd (bgplgd_RoutesFiltered be now k s)) = routesCache s \<and>
   routesReceivedCache (snd (bgplgd_RoutesFiltered be now k s)) = routesReceivedCache s \<and>
   (\<exists>u. sent (snd (bgplgd_RoutesFiltered be now k s)) = sent s @ u)"
proof (cases "RoutesCache_Get (routesFilteredCache s) now k")
  case (Pair got c)
  show ?thesis
  proof (cases got)
    case (Some cached)
    with Pair show ?thesis
      by (simp add: bgplgd_RoutesFiltered_def split: prod.splits)
  next
    case None
    obtain x s1 where f: "fetch_json be (ShowNeighborRIBRequest be s k) (s\<lparr>routesFilteredCache := c\<rparr>) = (x, s1)"
      by (cases "fetch_json be (ShowNeighborRIBRequest be s k) (s\<lparr>routesFilteredCache := c\<rparr>)")
    from fetch_json_frame[OF f] obtain u where s1: "s1 = s\<lparr>routesFilteredCache := c, sent := sent s @ u\<rparr>"
      by auto
    show ?thesis using Pair None f s1
      by (auto simp: bgplgd_RoutesFiltered_def Let_def split: sum.splits)
  qed
qed

lemma enrich_frame:
  "cfg (snd (enrich be now ns s)) = cfg s \<and>
   neighborsCache (snd (enrich be now ns s)) = neighborsCache s \<and>
   neighborsSummaryCache (snd (enrich be now ns s)) = neighborsSummaryCache s \<and>
   routesCache (snd (enrich be now ns s)) = routesCache s \<and>
   routesReceivedCache (snd (enrich be now ns s)) = routesReceivedCache s \<and>
   (\<exists>u. sent (snd (enrich be now ns s)) = sent s @ u)"
proof (induction ns arbitrary: s)
  case Nil
  then show ?case by simp
next
  case (Cons n ns)
  obtain out s1 where r: "bgplgd_RoutesFiltered be now (ID n) s = (out, s1)"
    by (cases "bgplgd_RoutesFiltered be now (ID n) s")
  have f1: "cfg s1 = cfg s \<and> neighborsCache s1 = neighborsCache s \<and>
     neighborsSummaryCache s1 = neighborsSummaryCache s \<and> routesCache s1 = routesCache s \<and>
     routesReceivedCache s1 = routesReceivedCache s \<and> (\<exists>u. sent s1 = sent s @ u)"
    using RoutesFiltered_frame[of be now "ID n" s] r by simp
  show ?case
  proof (cases out)
    case (Return rejectedRes)
    obtain out2 s2 where e: "enrich be now ns s1 = (out2, s2)"
      by (cases "enrich be now ns s1")
    have f2: "cfg s2 = cfg s1 \<and> neighborsCache s2 = neighborsCache s1 \<and>
     neighborsSummaryCache s2 = neighborsSummaryCache s1 \<and> routesCache s2 = routesCache s1 \<and>
     routesReceivedCache s2 = routesReceivedCache s1 \<and> (\<exists>u. sent s2 = sent s1 @ u)"
      using Cons.IH[of s1] e by simp
    have "snd (enrich be now (n # ns) s) = s2"
      using r Return e by (cases out2) simp_all
    with f1 f2 show ?thesis by auto
  next
    case (Fail e)
    with r f1 show ?thesis by simp
  next
    case Panic
    with r f1 show ?thesis by simp
  qed
qed

section \<open>Reading back what was stored\<close>





lemma rc_disabled_Get [simp]: "rc_disabled (snd (RoutesCache_Get c now k)) = rc_disabled c"
  by (simp add: RoutesCache_Get_def split: option.splits)

lemma rc_disabled_Set [simp]: "rc_disabled (RoutesCache_Set c now k v) = rc_disabled c"
  by (simp add: RoutesCache_Set_def Let_def)

lemma rc_disabled_Expire [simp]: "rc_disabled (snd (RoutesCache_Expire c now)) = rc_disabled c"
  by (simp add: RoutesCache_Expire_def)

lemma nc_disabled_Set [simp]: "nc_disabled (NeighborsCache_Set c now v) = nc_disabled c"
  by (simp add: NeighborsCache_Set_def)

section \<open>Every reachable state is sound\<close>

lemma sound_sent [simp]: "sound c (s\<lparr>sent := u\<rparr>) = sound c s"
  by (simp add: sound_def configured_def caches_ok_def)

lemma sound_New: "sound c (NewBgplgdSource c)"
  by (simp add: sound_def configured_def caches_ok_def NewBgplgdSource_def Let_def
      rc_all_def nc_all_def NewNeighborsCache_def NewRoutesCache_def)

lemma sound_fetch: "sound c s \<Longrightarrow> fetch_json be req s = (x, s1) \<Longrightarrow> sound c s1"
  using fetch_json_frame by fastforce

lemma RoutesFiltered_sound:
  assumes "sound c s"
  shows "sound c (snd (bgplgd_RoutesFiltered be now k s))"
proof (cases "RoutesCache_Get (routesFilteredCache s) now k")
  case (Pair got ca)
  have ca: "rc_all filtered_only ca" "rc_disabled ca = rc_disabled (routesFilteredCache s)"
    using rc_all_Get[of filtered_only "routesFilteredCache s" now k]
      rc_disabled_Get[of "routesFilteredCache s" now k] assms Pair
    by (simp_all add: sound_def caches_ok_def)
  have s0: "sound c (s\<lparr>routesFilteredCache := ca\<rparr>)"
    using assms ca by (simp add: sound_def caches_ok_def configured_def)
  show ?thesis
  proof (cases got)
    case (Some cached)
    have held: "filtered_only cached"
      using assms Pair Some rc_all_hit[where P=filtered_only and c="routesFilteredCache s" and now=now and k=k]
      by (simp add: sound_def caches_ok_def)
    have "rc_all filtered_only (snd (routes_hit k cached ca))"
      using ca(1) held by (intro routes_hit_keeps) (simp_all add: filtered_only_def has_meta_def)
    then have "sound c (s\<lparr>routesFilteredCache := snd (routes_hit k cached ca)\<rparr>)"
      using assms ca(2) by (simp add: sound_def caches_ok_def configured_def)
    with Pair Some show ?thesis
      by (auto simp: bgplgd_RoutesFiltered_def split: prod.splits)
  next
    case None
    obtain x s1 where f: "fetch_json be (ShowNeighborRIBRequest be s k) (s\<lparr>routesFilteredCache := ca\<rparr>) = (x, s1)"
      by (cases "fetch_json be (ShowNeighborRIBRequest be s k) (s\<lparr>routesFilteredCache := ca\<rparr>)")
    have s1: "sound c s1"
      using sound_fetch[OF s0 f] .
    show ?thesis
    proof (cases x)
      case (Inl e)
      with Pair None f s1 show ?thesis
        by (simp add: bgplgd_RoutesFiltered_def)
    next
      case (Inr body)
      show ?thesis
      proof (cases "decodeRoutes be body")
        case (Inl e)
        with Pair None f s1 Inr show ?thesis
          by (simp add: bgplgd_RoutesFiltered_def)
      next
        case rts: (Inr rts)
        have "sound c (s1\<lparr>routesFilteredCache := RoutesCache_Set (routesFilteredCache s1) now k
            \<lparr>Meta = Some (makeResponseMeta s1 now), Imported = Some [], NotExported = Some [],
             Filtered = filterRejectedRoutes be (RejectCommunities (cfg s1)) rts\<rparr>\<rparr>)"
          using s1 by (simp add: sound_def caches_ok_def configured_def rc_all_Set
              filtered_only_def has_meta_def)
        with Pair None f Inr rts show ?thesis
          by (simp add: bgplgd_RoutesFiltered_def Let_def)
      qed
    qed
  qed
qed

lemma RoutesReceived_sound:
  assumes "sound c s"
  shows "sound c (snd (bgplgd_RoutesReceived be now k s))"
proof (cases "RoutesCache_Get (routesReceivedCache s) now k")
  case (Pair got ca)
  have ca: "rc_all received_only ca" "rc_disabled ca = rc_disabled (routesReceivedCache s)"
    using rc_all_Get[of received_only "routesReceivedCache s" now k]
      rc_disabled_Get[of "routesReceivedCache s" now k] assms Pair
    by (simp_all add: sound_def caches_ok_def)
  have s0: "sound c (s\<lparr>routesReceivedCache := ca\<rparr>)"
    using assms ca by (simp add: sound_def caches_ok_def configured_def)
  show ?thesis
  proof (cases got)
    case (Some cached)
    have held: "received_only cached"
      using assms Pair Some rc_all_hit[where P=received_only and c="routesReceivedCache s" and now=now and k=k]
      by (simp add: sound_def caches_ok_def)
    have "rc_all received_only (snd (routes_hit k cached ca))"
      using ca(1) held by (intro routes_hit_keeps) (simp_all add: received_only_def has_meta_def)
    then have "sound c (s\<lparr>routesReceivedCache := snd (routes_hit k cached ca)\<rparr>)"
      using assms ca(2) by (simp add: sound_def caches_ok_def configured_def)
    with Pair Some show ?thesis
      by (auto simp: bgplgd_RoutesReceived_def split: prod.splits)
  next
    case None
    obtain x s1 where f: "fetch_json be (ShowNeighborRIBRequest be s k) (s\<lparr>routesReceivedCache := ca\<rparr>) = (x, s1)"
      by (cases "fetch_json be (ShowNeighborRIBRequest be s k) (s\<lparr>routesReceivedCache := ca\<rparr>)")
    have s1: "sound c s1"
      using sound_fetch[OF s0 f] .
    show ?thesis
    proof (cases x)
      case (Inl e)
      with Pair None f s1 show ?thesis
        by (simp add: bgplgd_RoutesReceived_def)
    next
      case (Inr body)
      show ?thesis
      proof (cases "decodeRoutes be body")
        case (Inl e)
        with Pair None f s1 Inr show ?thesis
          by (simp add: bgplgd_RoutesReceived_def)
      next
        case rts: (Inr rts)
        have "sound c (s1\<lparr>routesReceivedCache := RoutesCache_Set (routesReceivedCache s1) now k
            \<lparr>Meta = Some (makeResponseMeta s1 now),
             Imported = filterReceivedRoutes be (RejectCommunities (cfg s1)) rts,
             NotExported = Some [], Filtered = Some []\<rparr>\<rparr>)"
          using s1 by (simp add: sound_def caches_ok_def configured_def rc_all_Set
              received_only_def has_meta_def)
        with Pair None f Inr rts show ?thesis
          by (simp add: bgplgd_RoutesReceived_def Let_def)
      qed
    qed
  qed
qed

lemma Routes_sound:
  assumes "sound c s"
  shows "sound c (snd (bgplgd_Routes be now k s))"
proof (cases "RoutesCache_Get (routesCache s) now k")
  case (Pair got ca)
  have ca: "rc_all has_meta ca" "rc_disabled ca = rc_disabled (routesCache s)"
    using rc_all_Get[of has_meta "routesCache s" now k]
      rc_disabled_Get[of "routesCache s" now k] assms Pair
    by (simp_all add: sound_def caches_ok_def)
  have s0: "sound c (s\<lparr>routesCache := ca\<rparr>)"
    using assms ca by (simp add: sound_def caches_ok_def configured_def)
  show ?thesis
  proof (cases got)
    case (Some cached)
    have held: "has_meta cached"
      using assms Pair Some rc_all_hit[where P=has_meta and c="routesCache s" and now=now and k=k]
      by (simp add: sound_def caches_ok_def)
    have "rc_all has_meta (snd (routes_hit k cached ca))"
      using ca(1) held by (intro routes_hit_keeps) (simp_all add: has_meta_def)
    then have "sound c (s\<lparr>routesCache := snd (routes_hit k cached ca)\<rparr>)"
      using assms ca(2) by (simp add: sound_def caches_ok_def configured_def)
    with Pair Some show ?thesis
      by (auto simp: bgplgd_Routes_def split: prod.splits)
  next
    case None
    obtain x s1 where f: "fetch_json be (ShowNeighborRIBRequest be s k) (s\<lparr>routesCache := ca\<rparr>) = (x, s1)"
      by (cases "fetch_json be (ShowNeighborRIBRequest be s k) (s\<lparr>routesCache := ca\<rparr>)")
    have s1: "sound c s1"
      using sound_fetch[OF s0 f] .
    show ?thesis
    proof (cases x)
      case (Inl e)
      with Pair None f s1 show ?thesis
        by (simp add: bgplgd_Routes_def)
    next
      case (Inr body)
      show ?thesis
      proof (cases "decodeRoutes be body")
        case (Inl e)
        with Pair None f s1 Inr show ?thesis
          by (simp add: bgplgd_Routes_def)
      next
        case rts: (Inr rts)
        have "sound c (s1\<lparr>routesCache := RoutesCache_Set (routesCache s1) now k
            \<lparr>Meta = Some (makeResponseMeta s1 now),
             Imported = filterReceivedRoutes be (RejectCommunities (cfg s1)) rts,
             NotExported = Some [],
             Filtered = filterRejectedRoutes be (RejectCommunities (cfg s1)) rts\<rparr>\<rparr>)"
          using s1 by (simp add: sound_def caches_ok_def configured_def rc_all_Set
              has_meta_def)
        with Pair None f Inr rts show ?thesis
          by (simp add: bgplgd_Routes_def Let_def)
      qed
    qed
  qed
qed

lemma enrich_sound: "sound c s \<Longrightarrow> sound c (snd (enrich be now ns s))"
proof (induction ns arbitrary: s)
  case Nil
  then show ?case by simp
next
  case (Cons n ns)
  obtain out s1 where r: "bgplgd_RoutesFiltered be now (ID n) s = (out, s1)"
    by (cases "bgplgd_RoutesFiltered be now (ID n) s")
  have i1: "sound c s1"
    using RoutesFiltered_sound[OF Cons.prems, of be now "ID n"] r by simp
  show ?case
  proof (cases out)
    case (Return rejectedRes)
    obtain out2 s2 where e: "enrich be now ns s1 = (out2, s2)"
      by (cases "enrich be now ns s1")
    have "snd (enrich be now (n # ns) s) = s2"
      using r Return e by (cases out2) simp_all
    with Cons.IH[OF i1] e show ?thesis by simp
  next
    case (Fail e)
    with r i1 show ?thesis by simp
  next
    case Panic
    with r i1 show ?thesis by simp
  qed
qed

lemma Neighbors_sound:
  assumes "sound c s"
  shows "sound c (snd (bgplgd_Neighbors be now s))"
proof (cases "NeighborsCache_Get (neighborsCache s) now")
  case (Some cached)
  have held: "has_meta cached"
    using assms Some nc_all_hit[where P=has_meta and c="neighborsCache s" and now=now]
    by (simp add: sound_def caches_ok_def)
  have "nc_all has_meta (snd (neighbors_hit cached (neighborsCache s)))"
    using assms held by (intro neighbors_hit_keeps) (simp_all add: sound_def caches_ok_def has_meta_def)
  then have "sound c (s\<lparr>neighborsCache := snd (neighbors_hit cached (neighborsCache s))\<rparr>)"
    using assms by (simp add: sound_def caches_ok_def configured_def)
  with Some show ?thesis
    by (auto simp: bgplgd_Neighbors_def split: prod.splits)
next
  case None
  obtain x s1 where f: "fetch_json be (ShowNeighborsRequest be s) s = (x, s1)"
    by (cases "fetch_json be (ShowNeighborsRequest be s) s")
  have s1: "sound c s1"
    using sound_fetch[OF assms f] .
  show ?thesis
  proof (cases x)
    case (Inl e)
    with None f s1 show ?thesis by (simp add: bgplgd_Neighbors_def)
  next
    case (Inr body)
    show ?thesis
    proof (cases "decodeNeighbors be body")
      case (Inl e)
      with None f s1 Inr show ?thesis by (simp add: bgplgd_Neighbors_def)
    next
      case nb: (Inr nb)
      obtain out s2 where e: "enrich be now nb s1 = (out, s2)"
        by (cases "enrich be now nb s1")
      have s2: "sound c s2"
        using enrich_sound[OF s1, of be now nb] e by simp
      show ?thesis
      proof (cases out)
        case (Return nb')
        have "sound c (s2\<lparr>neighborsCache := NeighborsCache_Set (neighborsCache s2) now
            \<lparr>Meta = Some (makeResponseMeta s2 now), Neighbors = nb'\<rparr>\<rparr>)"
          using s2 by (simp add: sound_def caches_ok_def configured_def nc_all_Set has_meta_def)
        with None f Inr nb e Return show ?thesis
          by (simp add: bgplgd_Neighbors_def Let_def)
      next
        case (Fail err)
        with None f Inr nb e s2 show ?thesis by (simp add: bgplgd_Neighbors_def)
      next
        case Panic
        with None f Inr nb e s2 show ?thesis by (simp add: bgplgd_Neighbors_def)
      qed
    qed
  qed
qed

lemma NeighborsSummary_sound:
  assumes "sound c s"
  shows "sound c (snd (bgplgd_NeighborsSummary be now s))"
proof (cases "NeighborsCache_Get (neighborsSummaryCache s) now")
  case (Some cached)
  have held: "has_meta cached"
    using assms Some nc_all_hit[where P=has_meta and c="neighborsSummaryCache s" and now=now]
    by (simp add: sound_def caches_ok_def)
  have "nc_all has_meta (snd (neighbors_hit cached (neighborsSummaryCache s)))"
    using assms held by (intro neighbors_hit_keeps) (simp_all add: sound_def caches_ok_def has_meta_def)
  then have "sound c (s\<lparr>neighborsSummaryCache := snd (neighbors_hit cached (neighborsSummaryCache s))\<rparr>)"
    using assms by (simp add: sound_def caches_ok_def configured_def)
  with Some show ?thesis
    by (auto simp: bgplgd_NeighborsSummary_def split: prod.splits)
next
  case None
  obtain x s1 where f: "fetch_json be (ShowNeighborsRequest be s) s = (x, s1)"
    by (cases "fetch_json be (ShowNeighborsRequest be s) s")
  have s1: "sound c s1"
    using sound_fetch[OF assms f] .
  show ?thesis
  proof (cases x)
    case (Inl e)
    with None f s1 show ?thesis by (simp add: bgplgd_NeighborsSummary_def)
  next
    case (Inr body)
    show ?thesis
    proof (cases "decodeNeighbors be body")
      case (Inl e)
      with None f s1 Inr show ?thesis by (simp add: bgplgd_NeighborsSummary_def)
    next
      case nb: (Inr nb)
      have "sound c (s1\<lparr>neighborsSummaryCache := NeighborsCache_Set (neighborsSummaryCache s1) now
            \<lparr>Meta = Some (makeResponseMeta s1 now),
             Neighbors = map (\<lambda>n. n\<lparr>RouteServerID := cfg_ID (cfg s1)\<rparr>) nb\<rparr>\<rparr>)"
        using s1 by (simp add: sound_def caches_ok_def configured_def nc_all_Set has_meta_def)
      with None f Inr nb show ?thesis
        by (simp add: bgplgd_NeighborsSummary_def Let_def)
    qed
  qed
qed

lemma ExpireCaches_sound: "sound c s \<Longrightarrow> sound c (snd (bgplgd_ExpireCaches now s))"
  using rc_all_Expire[of received_only "routesReceivedCache s" now]
    rc_disabled_Expire[of "routesReceivedCache s" now]
  by (cases "RoutesCache_Expire (routesReceivedCache s) now")
     (simp add: bgplgd_ExpireCaches_def sound_def caches_ok_def configured_def)

lemma NeighborsStatus_sound: "sound c s \<Longrightarrow> sound c (snd (bgplgd_NeighborsStatus be now s))"
  by (cases "fetch_json be (ShowNeighborsSummaryRequest be s) s")
     (auto simp: bgplgd_NeighborsStatus_def split: sum.splits dest: sound_fetch)

lemma AllRoutes_sound: "sound c s \<Longrightarrow> sound c (snd (bgplgd_AllRoutes be now s))"
  by (cases "fetch_json be (ShowRIBRequest be s) s")
     (auto simp: bgplgd_AllRoutes_def Let_def split: sum.splits dest: sound_fetch)

lemma reachable_sound: "reachable c s \<Longrightarrow> sound c s"
proof (induction rule: reachable.induct)
  case new
  show ?case by (rule sound_New)
next
  case (expire s now)
  then show ?case by (simp add: ExpireCaches_sound)
next
  case (status s now)
  then show ?case by (simp add: bgplgd_Status_def)
next
  case (neighbors s be now)
  then show ?case by (simp add: Neighbors_sound)
next
  case (summary s be now)
  then show ?case by (simp add: NeighborsSummary_sound)
next
  case (neighbors_status s be now)
  then show ?case by (simp add: NeighborsStatus_sound)
next
  case (routes s be now k)
  then show ?case by (simp add: Routes_sound)
next
  case (received s be now k)
  then show ?case by (simp add: RoutesReceived_sound)
next
  case (filtered s be now k)
  then show ?case by (simp add: RoutesFiltered_sound)
next
  case (not_exported s now k)
  then show ?case by (simp add: bgplgd_RoutesNotExported_def)
next
  case (all_routes s be now)
  then show ?case by (simp add: AllRoutes_sound)
qed

section \<open>A hit and a miss of each cached call\<close>

lemma RoutesReceived_hit:
  "fst (RoutesCache_Get (routesReceivedCache s) now k) = Some cached \<Longrightarrow>
   bgplgd_RoutesReceived be now k s =
     (fst (routes_hit k cached (snd (RoutesCache_Get (routesReceivedCache s) now k))),
      s\<lparr>routesReceivedCache := snd (routes_hit k cached (snd (RoutesCache_Get (routesReceivedCache s) now k)))\<rparr>)"
  by (cases "RoutesCache_Get (routesReceivedCache s) now k")
     (simp add: bgplgd_RoutesReceived_def split: prod.splits)

lemma RoutesReceived_miss_Return:
  assumes "fst (RoutesCache_Get (routesReceivedCache s) now k) = None"
    and "bgplgd_RoutesReceived be now k s = (Return r, s')"
  shows "Meta r = Some (makeResponseMeta s now) \<and> NotExported r = Some [] \<and> Filtered r = Some [] \<and>
     s' = s\<lparr>sent := sent s @ [APIURL (cfg s) (''/rib?neighbor='' @ k)],
            routesReceivedCache := RoutesCache_Set (routesReceivedCache s) now k r\<rparr>"
proof -
  have g: "RoutesCache_Get (routesReceivedCache s) now k = (None, routesReceivedCache s)"
    using assms(1) rc_miss_same[OF assms(1)] by (simp add: prod_eq_iff)
  show ?thesis
  proof (cases "NewRequest be (APIURL (cfg s) (''/rib?neighbor='' @ k))")
    case (Some e)
    with g assms(2) show ?thesis
      by (simp add: bgplgd_RoutesReceived_def fetch_json_def ShowNeighborRIBRequest_def
          new_get_request_def)
  next
    case None
    show ?thesis
    proof (cases "Do be (length (sent s)) (APIURL (cfg s) (''/rib?neighbor='' @ k))")
      case (Inl e)
      with g None assms(2) show ?thesis
        by (simp add: bgplgd_RoutesReceived_def fetch_json_def ShowNeighborRIBRequest_def
            new_get_request_def)
    next
      case (Inr res)
      show ?thesis
      proof (cases "ReadJSONResponse be res")
        case (Inl e)
        with g None Inr assms(2) show ?thesis
          by (simp add: bgplgd_RoutesReceived_def fetch_json_def ShowNeighborRIBRequest_def
              new_get_request_def)
      next
        case body: (Inr body)
        show ?thesis
        proof (cases "decodeRoutes be body")
          case (Inl e)
          with g None Inr body assms(2) show ?thesis
            by (simp add: bgplgd_RoutesReceived_def fetch_json_def ShowNeighborRIBRequest_def
                new_get_request_def)
        next
          case rts: (Inr rts)
          with g None Inr body assms(2) show ?thesis
            by (auto simp add: bgplgd_RoutesReceived_def fetch_json_def ShowNeighborRIBRequest_def
                new_get_request_def Let_def makeResponseMeta_def)
        qed
      qed
    qed
  qed
qed

lemma RoutesFiltered_hit:
  "fst (RoutesCache_Get (routesFilteredCache s) now k) = Some cached \<Longrightarrow>
   bgplgd_RoutesFiltered be now k s =
     (fst (routes_hit k cached (snd (RoutesCache_Get (routesFilteredCache s) now k))),
      s\<lparr>routesFilteredCache := snd (routes_hit k cached (snd (RoutesCache_Get (routesFilteredCache s) now k)))\<rparr>)"
  by (cases "RoutesCache_Get (routesFilteredCache s) now k")
     (simp add: bgplgd_RoutesFiltered_def split: prod.splits)

lemma RoutesFiltered_miss_Return:
  assumes "fst (RoutesCache_Get (routesFilteredCache s) now k) = None"
    and "bgplgd_RoutesFiltered be now k s = (Return r, s')"
  shows "Meta r = Some (makeResponseMeta s now) \<and> Imported r = Some [] \<and> NotExported r = Some [] \<and>
     s' = s\<lparr>sent := sent s @ [APIURL (cfg s) (''/rib?neighbor='' @ k)],
            routesFilteredCache := RoutesCache_Set (routesFilteredCache s) now k r\<rparr>"
proof -
  have g: "RoutesCache_Get (routesFilteredCache s) now k = (None, routesFilteredCache s)"
    using assms(1) rc_miss_same[OF assms(1)] by (simp add: prod_eq_iff)
  show ?thesis
  proof (cases "NewRequest be (APIURL (cfg s) (''/rib?neighbor='' @ k))")
    case (Some e)
    with g assms(2) show ?thesis
      by (simp add: bgplgd_RoutesFiltered_def fetch_json_def ShowNeighborRIBRequest_def
          new_get_request_def)
  next
    case None
    show ?thesis
    proof (cases "Do be (length (sent s)) (APIURL (cfg s) (''/rib?neighbor='' @ k))")
      case (Inl e)
      with g None assms(2) show ?thesis
        by (simp add: bgplgd_RoutesFiltered_def fetch_json_def ShowNeighborRIBRequest_def
            new_get_request_def)
    next
      case (Inr res)
      show ?thesis
      proof (cases "ReadJSONResponse be res")
        case (Inl e)
        with g None Inr assms(2) show ?thesis
          by (simp add: bgplgd_RoutesFiltered_def fetch_json_def ShowNeighborRIBRequest_def
              new_get_request_def)
      next
        case body: (Inr body)
        show ?thesis
        proof (cases "decodeRoutes be body")
          case (Inl e)
          with g None Inr body assms(2) show ?thesis
            by (simp add: bgplgd_RoutesFiltered_def fetch_json_def ShowNeighborRIBRequest_def
                new_get_request_def)
        next
          case rts: (Inr rts)
          with g None Inr body assms(2) show ?thesis
            by (auto simp add: bgplgd_RoutesFiltered_def fetch_json_def ShowNeighborRIBRequest_def
                new_get_request_def Let_def makeResponseMeta_def)
        qed
      qed
    qed
  qed
qed


















section \<open>Runs against the example backends\<close>



lemma example_received_again:
  "fst (bgplgd_RoutesReceived example_backend 10 ''a''
          (snd (bgplgd_RoutesReceived example_backend 0 ''a'' (NewBgplgdSource example_config)))) =
     Return \<lparr>Meta = Some \<lparr>CacheStatus = \<lparr>CachedAt = 0\<rparr>, Version = ''1.0'',
                          ResultFromCache = True, TTL = 300\<rparr>,
             Imported = Some [route_ok], NotExported = Some [], Filtered = Some []\<rparr>"
  by (simp add: bgplgd_RoutesReceived_def NewBgplgdSource_def example_config_def
      RoutesCache_Get_def RoutesCache_Set_def NewNeighborsCache_def NewRoutesCache_def fetch_json_def
      ShowNeighborRIBRequest_def new_get_request_def APIURL_def example_backend_def Let_def
      makeResponseMeta_def BgplgdSourceVersion_def is_rejected_def route_ok_def route_bad_def
      envelope_ttl_def rc_expired_def routes_hit_def rc_evict_def)

section \<open>Responses that are never cached\<close>


section \<open>The streaming adapter and its caches\<close>














section \<open>The loops over neighbors\<close>

text \<open>An error of \<^verbatim>\<open>RoutesFiltered\<close> for a neighbor, after the neighbors before it went
  through, is the result of the whole loop of \<^verbatim>\<open>Neighbors\<close>. The loop of \<^verbatim>\<open>AllRoutes\<close> reads
  every peer into the response, whatever \<^verbatim>\<open>GetRoutes\<close> returned for the peers before.\<close>

lemma enrich_abort:
  "enrich be now pre s0 = (Return pre', s1) \<Longrightarrow>
   fst (bgplgd_RoutesFiltered be now (ID n) s1) = Fail e \<Longrightarrow>
   fst (enrich be now (pre @ n # post) s0) = Fail e"
proof (induction pre arbitrary: s0 pre')
  case Nil
  then show ?case
    by (cases "bgplgd_RoutesFiltered be now (ID n) s1") simp
next
  case (Cons a pre)
  obtain out sa where r: "bgplgd_RoutesFiltered be now (ID a) s0 = (out, sa)"
    by (cases "bgplgd_RoutesFiltered be now (ID a) s0")
  show ?case
  proof (cases out)
    case (Return rr)
    obtain out2 s2 where e: "enrich be now pre sa = (out2, s2)"
      by (cases "enrich be now pre sa")
    from Cons.prems(1) r Return e obtain pre2 where p: "out2 = Return pre2" "s2 = s1"
      by (cases out2) auto
    have "fst (enrich be now (pre @ n # post) sa) = Fail e"
      using Cons.IH[of sa pre2] e p Cons.prems(2) by simp
    then show ?thesis
      using r Return
      by (cases "enrich be now (pre @ n # post) sa") simp
  next
    case (Fail err)
    with Cons.prems(1) r show ?thesis by simp
  next
    case Panic
    with Cons.prems(1) r show ?thesis by simp
  qed
qed

lemma all_routes_loop_snoc:
  "all_routes_loop env (ps @ [p]) rts g =
     (case all_routes_loop env ps rts g of
        (rts1, g1) \<Rightarrow> (case GetRoutes env p ADJ_IN rts1 g1 of ((err, rts2), g2) \<Rightarrow> (rts2, g2)))"
  by (induction ps arbitrary: rts g) (simp_all split: prod.splits)

lemma example_neighbors_fetch:
  "fetch_json example_backend (ShowNeighborsRequest example_backend (NewBgplgdSource example_config))
     (NewBgplgdSource example_config) =
   (Inr ''b/neighbors'', (NewBgplgdSource example_config)\<lparr>sent := [''b/neighbors'']\<rparr>)"
  by (simp add: fetch_json_def ShowNeighborsRequest_def new_get_request_def APIURL_def
      example_backend_def NewBgplgdSource_def example_config_def Let_def)

lemma example_enrich_a:
  "\<exists>pre'. fst (enrich example_backend 0 [example_neighbor ''a'']
      ((NewBgplgdSource example_config)\<lparr>sent := [''b/neighbors'']\<rparr>)) = Return pre'"
  by (simp add: bgplgd_RoutesFiltered_def NewBgplgdSource_def example_config_def
      RoutesCache_Get_def NewNeighborsCache_def NewRoutesCache_def fetch_json_def
      ShowNeighborRIBRequest_def new_get_request_def APIURL_def example_backend_def Let_def
      example_neighbor_def)

lemma example_filtered_z:
  "fst (bgplgd_RoutesFiltered example_backend 0 ''z''
      (snd (enrich example_backend 0 [example_neighbor ''a'']
         ((NewBgplgdSource example_config)\<lparr>sent := [''b/neighbors'']\<rparr>)))) = Fail (Error ''routes'')"
  by (simp add: bgplgd_RoutesFiltered_def NewBgplgdSource_def example_config_def
      RoutesCache_Get_def RoutesCache_Set_def NewNeighborsCache_def NewRoutesCache_def fetch_json_def
      ShowNeighborRIBRequest_def new_get_request_def APIURL_def example_backend_def Let_def
      example_neighbor_def rc_evict_def)

section \<open>The claims\<close>

text \<open>
  C1. \<^verbatim>\<open>ExpireCaches\<close> is to sweep every cache of the instance and return the total
  removed. The polling adapter sweeps \<^verbatim>\<open>routesReceivedCache\<close> alone: after a
  \<^verbatim>\<open>NeighborsSummary\<close> at instant 0 with a time to live of 300, \<^verbatim>\<open>ExpireCaches\<close> at instant
  1000 returns 0 and leaves the adapter as it was, although a sweep of the summary cache
  at that instant removes one entry.
\<close>

theorem ExpireCaches_leaves_expired_summary:
  "\<exists>r s. bgplgd_NeighborsSummary example_backend 0 (NewBgplgdSource example_config) = (Return r, s) \<and>
     bgplgd_ExpireCaches 1000 s = (0, s) \<and>
     fst (NeighborsCache_Expire (neighborsSummaryCache s) 1000) = 1"
  by (simp add: bgplgd_NeighborsSummary_def NewBgplgdSource_def example_config_def
      NeighborsCache_Get_def NewNeighborsCache_def fetch_json_def ShowNeighborsRequest_def
      new_get_request_def APIURL_def example_backend_def Let_def NeighborsCache_Set_def
      envelope_ttl_def makeResponseMeta_def bgplgd_ExpireCaches_def RoutesCache_Expire_def
      NewRoutesCache_def NeighborsCache_Expire_def nc_expired_def)

text \<open>
  C2. A route is to appear in at most one of \<^verbatim>\<open>Imported\<close>, \<^verbatim>\<open>NotExported\<close> and \<^verbatim>\<open>Filtered\<close>.
  The streaming adapter's \<^verbatim>\<open>RoutesNotExported\<close> assigns the filtered sequence to
  \<^verbatim>\<open>NotExported\<close> and keeps it in \<^verbatim>\<open>Filtered\<close>: for the neighbor \<open>a\<close> of the example
  daemon the filtered route is in both.
\<close>

theorem gobgp_RoutesNotExported_repeats_filtered:
  "\<exists>r. fst (gobgp_RoutesNotExported example_env ''a'' g) = Return r \<and>
       Filtered r = Some [route_bad] \<and> NotExported r = Some [route_bad]"
  by (simp add: gobgp_RoutesNotExported_def example_env_def example_peer_def append_routes_def)

text \<open>
  C3 (as amended). In the polling adapter a successful \<^verbatim>\<open>RoutesReceived\<close> has \<^verbatim>\<open>Filtered\<close> and
  \<^verbatim>\<open>NotExported\<close> empty and not nil, and a successful \<^verbatim>\<open>RoutesFiltered\<close> has \<^verbatim>\<open>Imported\<close> and
  \<^verbatim>\<open>NotExported\<close> empty and not nil, whether the response is new or comes from the cache.
  In the streaming adapter the sequence that was not asked for is set to nil: \<^verbatim>\<open>Filtered\<close>
  by \<^verbatim>\<open>RoutesReceived\<close>, \<^verbatim>\<open>Imported\<close> by \<^verbatim>\<open>RoutesFiltered\<close>.
\<close>

theorem unrequested_sequences:
  assumes "reachable c s"
  shows "(fst (bgplgd_RoutesReceived be now k s) = Return r \<longrightarrow>
            Filtered r = Some [] \<and> NotExported r = Some []) \<and>
         (fst (bgplgd_RoutesFiltered be now k s) = Return r \<longrightarrow>
            Imported r = Some [] \<and> NotExported r = Some []) \<and>
         (fst (gobgp_RoutesReceived env k g) = Return r \<longrightarrow> Filtered r = None) \<and>
         (fst (gobgp_RoutesFiltered env k g) = Return r \<longrightarrow> Imported r = None)"
proof -
  have ok: "caches_ok s"
    using reachable_sound[OF assms] by (simp add: sound_def)
  have received: "Filtered r = Some [] \<and> NotExported r = Some []"
    if run: "fst (bgplgd_RoutesReceived be now k s) = Return r"
  proof (cases "fst (RoutesCache_Get (routesReceivedCache s) now k)")
    case None
    from run have "bgplgd_RoutesReceived be now k s = (Return r, snd (bgplgd_RoutesReceived be now k s))"
      by (simp add: prod_eq_iff)
    from RoutesReceived_miss_Return[OF None this] show ?thesis by simp
  next
    case (Some cached)
    have "received_only cached"
      using ok Some rc_all_hit[where P=received_only and c="routesReceivedCache s"]
      by (simp add: caches_ok_def)
    with run Some show ?thesis
      by (auto simp: RoutesReceived_hit routes_hit_def received_only_def has_meta_def)
  qed
  have filtered: "Imported r = Some [] \<and> NotExported r = Some []"
    if run: "fst (bgplgd_RoutesFiltered be now k s) = Return r"
  proof (cases "fst (RoutesCache_Get (routesFilteredCache s) now k)")
    case None
    from run have "bgplgd_RoutesFiltered be now k s = (Return r, snd (bgplgd_RoutesFiltered be now k s))"
      by (simp add: prod_eq_iff)
    from RoutesFiltered_miss_Return[OF None this] show ?thesis by simp
  next
    case (Some cached)
    have "filtered_only cached"
      using ok Some rc_all_hit[where P=filtered_only and c="routesFilteredCache s"]
      by (simp add: caches_ok_def)
    with run Some show ?thesis
      by (auto simp: RoutesFiltered_hit routes_hit_def filtered_only_def has_meta_def)
  qed
  have g1: "Filtered r = None" if "fst (gobgp_RoutesReceived env k g) = Return r"
    using that by (auto simp: gobgp_RoutesReceived_def split: sum.splits prod.splits option.splits)
  have g2: "Imported r = None" if "fst (gobgp_RoutesFiltered env k g) = Return r"
    using that by (auto simp: gobgp_RoutesFiltered_def split: outcome.splits prod.splits)
  from received filtered g1 g2 show ?thesis by blast
qed

text \<open>The amended C3 at work: a second \<^verbatim>\<open>RoutesReceived\<close> for the neighbor \<open>a\<close>, served from
  the cache the first one filled, and the two calls of the example daemon.\<close>

theorem unrequested_sequences_witness:
  "reachable example_config
     (snd (bgplgd_RoutesReceived example_backend 0 ''a'' (NewBgplgdSource example_config))) \<and>
   (\<exists>r. fst (bgplgd_RoutesReceived example_backend 10 ''a''
          (snd (bgplgd_RoutesReceived example_backend 0 ''a'' (NewBgplgdSource example_config)))) = Return r \<and>
        Filtered r = Some [] \<and> NotExported r = Some []) \<and>
   (\<exists>r. fst (gobgp_RoutesReceived example_env ''a'' (NewGoBGP example_gobgp_config)) = Return r \<and>
        Filtered r = None) \<and>
   (\<exists>r. fst (gobgp_RoutesFiltered example_env ''a'' (NewGoBGP example_gobgp_config)) = Return r \<and>
        Imported r = None)"
proof -
  let ?s = "snd (bgplgd_RoutesReceived example_backend 0 ''a'' (NewBgplgdSource example_config))"
  have reach: "reachable example_config ?s"
    by (rule reachable.received[OF reachable.new])
  note t = unrequested_sequences[OF reach, where be=example_backend and now=10 and k="''a''"
      and env=example_env and g="NewGoBGP example_gobgp_config"]
  have g: "\<exists>r. fst (gobgp_RoutesReceived example_env ''a'' (NewGoBGP example_gobgp_config)) = Return r"
    "\<exists>r. fst (gobgp_RoutesFiltered example_env ''a'' (NewGoBGP example_gobgp_config)) = Return r"
    by (simp_all add: gobgp_RoutesReceived_def gobgp_RoutesFiltered_def gobgp_getRoutes_def
      example_env_def example_peer_def)
  from reach t example_received_again g show ?thesis
    by blast
qed

text \<open>C3 as stated fails: the streaming adapter returns nil, not an empty sequence.\<close>

theorem gobgp_RoutesReceived_nil:
  "fst (gobgp_RoutesReceived example_env ''a'' (NewGoBGP example_gobgp_config)) =
     Return \<lparr>Meta = None, Imported = Some [route_ok], NotExported = Some [], Filtered = None\<rparr> \<and>
   fst (gobgp_RoutesFiltered example_env ''a'' (NewGoBGP example_gobgp_config)) =
     Return \<lparr>Meta = None, Imported = None, NotExported = Some [], Filtered = Some [route_bad]\<rparr>"
  by (simp add: gobgp_RoutesReceived_def gobgp_RoutesFiltered_def gobgp_getRoutes_def
      example_env_def example_peer_def append_routes_def)







text \<open>
  C6. A failure of the backend is to come back as an error, never as a panic. In the
  streaming adapter \<^verbatim>\<open>RoutesFiltered\<close> of a neighbor that cannot be looked up panics, and
  so do \<^verbatim>\<open>Neighbors\<close> and \<^verbatim>\<open>NeighborsStatus\<close> when the peer stream yields an error.
\<close>

theorem gobgp_error_paths_panic:
  "fst (gobgp_RoutesFiltered example_env ''x'' g) = Panic \<and>
   fst (gobgp_Neighbors broken_stream_env now g) = Panic \<and>
   fst (gobgp_NeighborsStatus broken_stream_env now g) = Panic"
  by (simp add: gobgp_RoutesFiltered_def gobgp_getRoutes_def gobgp_Neighbors_def
      gobgp_NeighborsStatus_def broken_stream_env_def example_env_def)

text \<open>
  C7 (as amended). In the polling adapter's \<^verbatim>\<open>Neighbors\<close>, an error of \<^verbatim>\<open>RoutesFiltered\<close> for
  any neighbor of the decoded list ends the call with that error, and nothing is stored in
  the neighbors cache. The streaming adapter's \<^verbatim>\<open>AllRoutes\<close> fails only when the neighbors
  cannot be listed; otherwise it succeeds with the response that the calls of \<^verbatim>\<open>GetRoutes\<close>
  for all peers leave, an error of \<^verbatim>\<open>GetRoutes\<close> for one peer being printed and passed over.
\<close>

theorem loops_abort_or_go_on:
  assumes "NeighborsCache_Get (neighborsCache s) now = None"
    and "fetch_json be (ShowNeighborsRequest be s) s = (Inr body, s0)"
    and "decodeNeighbors be body = Inr (pre @ n # post)"
    and "enrich be now pre s0 = (Return pre', s1)"
    and "fst (bgplgd_RoutesFiltered be now (ID n) s1) = Fail e"
  shows "fst (bgplgd_Neighbors be now s) = Fail e \<and>
         neighborsCache (snd (bgplgd_Neighbors be now s)) = neighborsCache s \<and>
         (fst (GetNeighbors env g) = Inl e' \<longrightarrow> fst (gobgp_AllRoutes env g) = Fail e') \<and>
         (fst (GetNeighbors env g) = Inr peers \<longrightarrow>
            fst (gobgp_AllRoutes env g) =
              Return (fst (all_routes_loop env peers (NewRoutesResponse env) (snd (GetNeighbors env g))))) \<and>
         all_routes_loop env (ps @ [p]) rts g =
           (case all_routes_loop env ps rts g of
              (rts1, g1) \<Rightarrow>
                (case GetRoutes env p ADJ_IN rts1 g1 of ((err, rts2), g2) \<Rightarrow> (rts2, g2)))"
proof -
  obtain out s2 where en: "enrich be now (pre @ n # post) s0 = (out, s2)"
    by (cases "enrich be now (pre @ n # post) s0")
  have out: "out = Fail e"
    using enrich_abort[OF assms(4,5), of post] en by simp
  have run: "bgplgd_Neighbors be now s = (Fail e, s2)"
    using assms(1,2,3) en out by (simp add: bgplgd_Neighbors_def)
  have "neighborsCache s0 = neighborsCache s"
    using fetch_json_frame[OF assms(2)] by auto
  moreover have "neighborsCache s2 = neighborsCache s0"
    using enrich_frame[of be now "pre @ n # post" s0] en by simp
  ultimately have "neighborsCache s2 = neighborsCache s"
    by simp
  have all1: "fst (gobgp_AllRoutes env g) = Fail e'" if "fst (GetNeighbors env g) = Inl e'"
    using that by (cases "GetNeighbors env g") (simp add: gobgp_AllRoutes_def)
  have all2: "fst (gobgp_AllRoutes env g) =
      Return (fst (all_routes_loop env peers (NewRoutesResponse env) (snd (GetNeighbors env g))))"
    if "fst (GetNeighbors env g) = Inr peers"
    using that by (cases "GetNeighbors env g") (simp add: gobgp_AllRoutes_def split: prod.splits)
  from run \<open>neighborsCache s2 = neighborsCache s\<close> all1 all2 all_routes_loop_snoc[of env ps p rts g]
  show ?thesis
    by simp
qed

text \<open>The amended C7 at work: of the two neighbors of the example backend the second has
  no RIB to read, and \<^verbatim>\<open>Neighbors\<close> fails with that error; \<^verbatim>\<open>AllRoutes\<close> of the example daemon
  succeeds.\<close>

theorem loops_abort_or_go_on_witness:
  "fst (bgplgd_Neighbors example_backend 0 (NewBgplgdSource example_config)) = Fail (Error ''routes'') \<and>
   neighborsCache (snd (bgplgd_Neighbors example_backend 0 (NewBgplgdSource example_config))) =
     neighborsCache (NewBgplgdSource example_config) \<and>
   decodeNeighbors example_backend ''b/neighbors'' = Inr ([example_neighbor ''a''] @ example_neighbor ''z'' # []) \<and>
   fst (GetNeighbors example_env (NewGoBGP example_gobgp_config)) =
     Inr [example_peer ''d'' IDLE, example_peer ''a'' ESTABLISHED] \<and>
   fst (gobgp_AllRoutes example_env (NewGoBGP example_gobgp_config)) =
     Return (fst (all_routes_loop example_env [example_peer ''d'' IDLE, example_peer ''a'' ESTABLISHED]
       (NewRoutesResponse example_env)
       (snd (GetNeighbors example_env (NewGoBGP example_gobgp_config)))))"
proof -
  let ?new = "NewBgplgdSource example_config"
  let ?fetched = "?new\<lparr>sent := [''b/neighbors'']\<rparr>"
  have miss: "NeighborsCache_Get (neighborsCache ?new) 0 = None"
    by (simp add: NewBgplgdSource_def NeighborsCache_Get_def NewNeighborsCache_def Let_def)
  have dec: "decodeNeighbors example_backend ''b/neighbors'' =
      Inr ([example_neighbor ''a''] @ example_neighbor ''z'' # [])"
    by (simp add: example_backend_def)
  obtain pre' where "fst (enrich example_backend 0 [example_neighbor ''a''] ?fetched) = Return pre'"
    using example_enrich_a by blast
  then have en: "enrich example_backend 0 [example_neighbor ''a''] ?fetched =
      (Return pre', snd (enrich example_backend 0 [example_neighbor ''a''] ?fetched))"
    by (simp add: prod_eq_iff)
  have z: "fst (bgplgd_RoutesFiltered example_backend 0 (ID (example_neighbor ''z''))
      (snd (enrich example_backend 0 [example_neighbor ''a''] ?fetched))) = Fail (Error ''routes'')"
    using example_filtered_z by (simp add: example_neighbor_def)
  have peers: "fst (GetNeighbors example_env (NewGoBGP example_gobgp_config)) =
      Inr [example_peer ''d'' IDLE, example_peer ''a'' ESTABLISHED]"
    by (simp add: example_env_def)
  note t = loops_abort_or_go_on[OF miss example_neighbors_fetch dec en z,
      where env=example_env and g="NewGoBGP example_gobgp_config"
        and peers="[example_peer ''d'' IDLE, example_peer ''a'' ESTABLISHED]"]
  from t dec peers show ?thesis
    by blast
qed

text \<open>C7 as stated fails: \<^verbatim>\<open>GetRoutes\<close> fails for the first peer of the example daemon, and
  \<^verbatim>\<open>AllRoutes\<close> returns the routes of the second.\<close>

theorem gobgp_AllRoutes_partial:
  "fst (fst (GetRoutes example_env (example_peer ''d'' IDLE) ADJ_IN (NewRoutesResponse example_env)
       (NewGoBGP example_gobgp_config))) = Some (Error ''stream'') \<and>
   fst (gobgp_AllRoutes example_env (NewGoBGP example_gobgp_config)) =
     Return \<lparr>Meta = None, Imported = Some [route_ok], NotExported = Some [],
             Filtered = Some [route_bad]\<rparr>"
  by (simp add: gobgp_AllRoutes_def example_env_def example_peer_def append_routes_def)

text \<open>
  C8. \<^verbatim>\<open>NeighborsStatus\<close> is to return one status per neighbor the backend reports. The
  streaming adapter returns none for the two peers of the example daemon.
\<close>

theorem gobgp_NeighborsStatus_drops_entries:
  "fst (gobgp_NeighborsStatus example_env now (NewGoBGP example_gobgp_config)) =
     Return \<lparr>Meta = None, StatusNeighbors = []\<rparr>"
  by (simp add: gobgp_NeighborsStatus_def example_env_def)

text \<open>
  C9. The counters of a neighbor are to be the sums over its address families, the
  filtered count the received total less the accepted total. Each peer of the example
  daemon has two families (10 received, 8 accepted; 5 received, 5 accepted): the adapter
  reports 15 received, 13 accepted and 4 filtered, where 15 - 13 is 2.
\<close>

theorem gobgp_Neighbors_filtered_count:
  "\<exists>r. fst (gobgp_Neighbors example_env 0 (NewGoBGP example_gobgp_config)) = Return r \<and>
       map RoutesReceived (Neighbors r) = [15, 15] \<and>
       map RoutesAccepted (Neighbors r) = [13, 13] \<and>
       map RoutesFiltered (Neighbors r) = [4, 4]"
  by (simp add: gobgp_Neighbors_def make_neighbor_example ListPeer_example)

text \<open>
  C10. \<^verbatim>\<open>Status\<close> of the polling adapter sends no request and always succeeds, with the
  version \<open>openbgpd\<close> and a constant message: the adapter is left as it was (its requests
  sent included), whatever the backend.
\<close>

theorem bgplgd_Status_always_succeeds:
  "snd (bgplgd_Status now s) = s \<and>
   (\<exists>m. fst (bgplgd_Status now s) =
      Return \<lparr>Meta = Some m,
              Status = \<lparr>status_Version = ''openbgpd'', status_Message = ''openbgpd up and running'',
                        status_RouterID = [], status_Backend = []\<rparr>\<rparr>)"
  by (simp add: bgplgd_Status_def)

end
